theory Spec2Isabelle
  imports Complex_Main
begin

section \<open>The SWMM5 engine's main module (swmm5.c): data model\<close>

text \<open>
  The development embeds the lifecycle functions of \<^verbatim>\<open>swmm5.c\<close> as compiled on a
  platform other than Windows (the file selects \<^verbatim>\<open>SOL\<close>, a shared object library):
  \<^verbatim>\<open>WINDOWS\<close> and \<^verbatim>\<open>EXH\<close> are undefined there, the structured exception handling
  (\<^verbatim>\<open>__try\<close>/\<^verbatim>\<open>__except\<close>, \<^verbatim>\<open>xfilter\<close>) is compiled out, and a function body is the
  block between the braces. C \<^verbatim>\<open>double\<close> values are idealised as \<^typ>\<open>real\<close> (no
  rounding). C \<^verbatim>\<open>int\<close> and \<^verbatim>\<open>long\<close> variables hold values of type \<^typ>\<open>int\<close>; the one
  integer product of the module, \<^verbatim>\<open>1000 * ReportStep\<close>, is taken in 32-bit arithmetic
  (\<open>c_int\<close> below).
\<close>

text \<open>
  Modelled from the spec: the header \<^verbatim>\<open>error.h\<close> with the error codes is missing. The
  codes are "an enumerated set (none, not-open, invalid-timestep,
  numeric-id-out-of-range, system-fault, ...)". The C test \<^verbatim>\<open>if ( ErrorCode )\<close> is
  \<open>ErrorCode \<noteq> ERR_NONE\<close>, and the assignment \<^verbatim>\<open>ErrorCode = 0\<close> stores \<open>ERR_NONE\<close>.
\<close>

datatype ErrorType =
  ERR_NONE | ERR_TIMESTEP | ERR_NOT_OPEN | ERR_SYSTEM | ERR_NUMBER | ERR_OTHER nat

text \<open>The object kinds that index the array \<^verbatim>\<open>Nobjects\<close> in this module.\<close>

datatype ObjectType = SUBCATCH | NODE | LINK

type_synonym DateTime = real

text \<open>
  The fields of a \<^verbatim>\<open>Node[]\<close> element that \<^verbatim>\<open>swmm5.c\<close> reads or writes
  (\<^verbatim>\<open>objects.h\<close> declares the full structure).
\<close>

record TNode =
  ID :: string
  type :: int
  subIndex :: int
  invertElev :: real
  initDepth :: real
  fullDepth :: real
  surDepth :: real
  pondedArea :: real
  degree :: int
  updated :: int
  crownElev :: real
  inflow :: real
  outflow :: real
  losses :: real
  newVolume :: real
  fullVolume :: real
  overflow :: real
  newDepth :: real
  newLatFlow :: real
  dllInflow :: real

text \<open>The structure filled by \<^verbatim>\<open>swmm_getNodeData\<close>, field by field.\<close>

record nodeData =
  nd_inflow :: real
  nd_outflow :: real
  nd_head :: real
  nd_crestElev :: real
  nd_type :: int
  nd_subIndex :: int
  nd_invertElev :: real
  nd_initDepth :: real
  nd_fullDepth :: real
  nd_surDepth :: real
  nd_pondedArea :: real
  nd_degree :: int
  nd_updated :: int
  nd_crownElev :: real
  nd_losses :: real
  nd_newVolume :: real
  nd_fullVolume :: real
  nd_overflow :: real
  nd_newDepth :: real
  nd_newLatFlow :: real

text \<open>
  The global variables of \<^verbatim>\<open>globals.h\<close> that the module uses. Every other module can
  write them too, so the external functions below are transformers of this record. The
  field \<open>world\<close> stands for everything else those modules own (project data, files,
  hydraulic state).
\<close>

record 'w globals =
  ErrorCode :: ErrorType
  WarningCode :: int
  NewRunoffTime :: real
  NewRoutingTime :: real
  ReportTime :: real
  TotalDuration :: real
  StepCount :: int
  NonConvergeCount :: int
  ReportStep :: int
  WetStep :: int
  RouteStep :: real
  RouteModel :: int
  StartDateTime :: DateTime
  IgnoreRainfall :: bool
  IgnoreRouting :: bool
  Nobjects :: "ObjectType \<Rightarrow> int"
  RunoffError :: real
  GwaterError :: real
  FlowError :: real
  QualError :: real
  RptFlags_input :: bool
  RptFlags_controls :: bool
  Fout_file :: bool
  Node :: "TNode list"
  world :: 'w

text \<open>
  The functions of other modules that \<^verbatim>\<open>swmm5.c\<close> calls, with their arguments. A value
  of this type also labels a call in the log kept by the model.
\<close>

datatype proc =
    datetime_setDateFormat
  | project_open string string string
  | report_writeLogo
  | project_readInput
  | report_writeTitle
  | project_validate
  | inputrpt_writeInput
  | report_writeErrorMsg ErrorType string
  | rain_open
  | project_init
  | output_open
  | runoff_open
  | hotstart_open
  | routing_open
  | massbal_open
  | stats_open
  | report_writeOptions
  | report_writeControlActionsHeading
  | routing_getRoutingStep int real
  | runoff_execute
  | climate_setState DateTime
  | routing_execute int real
  | output_saveResults real
  | output_end
  | massbal_report
  | stats_report
  | stats_close
  | massbal_close
  | rain_close
  | runoff_close
  | routing_close int
  | hotstart_close

text \<open>
  The other modules are parameters of the model. \<open>extern C p\<close> is the effect on the
  globals of the call \<open>p\<close> of a function whose result the module does not use;
  the two functions whose result it uses, and the pure \<^verbatim>\<open>datetime_addSeconds\<close>, have
  fields of their own.
\<close>

record 'w collab =
  extern :: "proc \<Rightarrow> 'w globals \<Rightarrow> 'w globals"
  getRoutingStep :: "int \<Rightarrow> real \<Rightarrow> 'w globals \<Rightarrow> real \<times> 'w globals"
  hotstartOpen :: "'w globals \<Rightarrow> bool \<times> 'w globals"
  datetime_addSeconds :: "DateTime \<Rightarrow> real \<Rightarrow> DateTime"

text \<open>
  The state of the engine: the \<^verbatim>\<open>static\<close> variables of \<^verbatim>\<open>swmm5.c\<close>, which no other
  module can reach, the globals, and \<open>calls\<close>, the log of the external calls made so far
  in the order they were made (an observation added by the model; no function reads it).
\<close>

record 'w sim =
  IsOpenFlag :: bool
  IsStartedFlag :: bool
  SaveResultsFlag :: int
  ExceptionCount :: int
  DoRunoff :: bool
  DoRouting :: bool
  glob :: "'w globals"
  calls :: "proc list"

text \<open>
  The value of a C \<^verbatim>\<open>int\<close> expression whose exact value is \<open>x\<close>: the compiled code
  keeps the low 32 bits, read in two's complement (ISO C leaves the overflow
  undefined). \<^verbatim>\<open>globals.h\<close>, which declares \<^verbatim>\<open>ReportStep\<close>, is missing; the cast in
  \<^verbatim>\<open>(double)(1000 * ReportStep)\<close> shows that the product is an integer one.
\<close>

definition c_int :: "int \<Rightarrow> int" where
  "c_int x = (x + 2147483648) mod 4294967296 - 2147483648"

text \<open>Modelled from the spec: \<^verbatim>\<open>consts.h\<close> is missing; milliseconds per day.\<close>

definition MSECperDAY :: real where
  "MSECperDAY = 86400000"

section \<open>Calling the other modules\<close>

definition invoke :: "'w collab \<Rightarrow> proc \<Rightarrow> 'w sim \<Rightarrow> 'w sim" where
  "invoke C p s = s\<lparr>glob := extern C p (glob s), calls := calls s @ [p]\<rparr>"

definition invoke_getRoutingStep :: "'w collab \<Rightarrow> int \<Rightarrow> real \<Rightarrow> 'w sim \<Rightarrow> real \<times> 'w sim" where
  "invoke_getRoutingStep C m dt s =
     (fst (getRoutingStep C m dt (glob s)),
      s\<lparr>glob := snd (getRoutingStep C m dt (glob s)),
        calls := calls s @ [routing_getRoutingStep m dt]\<rparr>)"

definition invoke_hotstart_open :: "'w collab \<Rightarrow> 'w sim \<Rightarrow> bool \<times> 'w sim" where
  "invoke_hotstart_open C s =
     (fst (hotstartOpen C (glob s)),
      s\<lparr>glob := snd (hotstartOpen C (glob s)), calls := calls s @ [hotstart_open]\<rparr>)"

section \<open>The time-stepping functions\<close>

text \<open>\<^verbatim>\<open>getDateTime\<close>: the calendar date/time of an elapsed time in milliseconds.\<close>

definition getDateTime :: "'w collab \<Rightarrow> 'w globals \<Rightarrow> real \<Rightarrow> DateTime" where
  "getDateTime C g elapsedMsec =
     datetime_addSeconds C (StartDateTime g) ((elapsedMsec + 1) / 1000)"

text \<open>
  How a statement sequence inside \<^verbatim>\<open>execRouting\<close> ends: \<open>Returned\<close> when it executed
  \<^verbatim>\<open>return\<close>, \<open>Continue\<close> when control goes on to the next statement.
\<close>

datatype 'a outcome = Returned 'a | Continue 'a

fun final :: "'a outcome \<Rightarrow> 'a" where
  "final (Returned s) = s"
| "final (Continue s) = s"

text \<open>
  The catch-up loop of \<^verbatim>\<open>execRouting\<close>,
  \<^verbatim>\<open>while ( NewRunoffTime < nextRoutingTime ) { runoff_execute(); if ( ErrorCode ) return; }\<close>.
  Nothing in this module bounds the number of iterations, so the result is an option:
  \<open>None\<close> is the loop that never ends.
\<close>

partial_function (option) runoff_loop ::
  "'w collab \<Rightarrow> real \<Rightarrow> 'w sim \<Rightarrow> 'w sim outcome option" where
  "runoff_loop C nextRoutingTime s =
     (if NewRunoffTime (glob s) < nextRoutingTime then
        (if ErrorCode (glob (invoke C runoff_execute s)) \<noteq> ERR_NONE
         then Some (Returned (invoke C runoff_execute s))
         else runoff_loop C nextRoutingTime (invoke C runoff_execute s))
      else Some (Continue s))"

text \<open>The first statement of \<^verbatim>\<open>execRouting\<close>, \<^verbatim>\<open>StepCount++\<close>.\<close>

definition countStep :: "'w sim \<Rightarrow> 'w sim" where
  "countStep s = s\<lparr>glob := (glob s)\<lparr>StepCount := StepCount (glob s) + 1\<rparr>\<rparr>"

text \<open>
  The candidate routing step of \<^verbatim>\<open>execRouting\<close> (in seconds), with the state after
  asking for it:
  \<^verbatim>\<open>if ( !DoRouting ) routingStep = MIN(WetStep, ReportStep);
  else routingStep = routing_getRoutingStep(RouteModel, RouteStep);\<close>
\<close>

definition candidateStep :: "'w collab \<Rightarrow> 'w sim \<Rightarrow> real \<times> 'w sim" where
  "candidateStep C s =
     (if \<not> DoRouting s
      then (real_of_int (min (WetStep (glob s)) (ReportStep (glob s))), s)
      else invoke_getRoutingStep C (RouteModel (glob s)) (RouteStep (glob s)) s)"

text \<open>
  The adjustment added in release 5.1.008: from the candidate step and the globals, the
  step handed to the routing module and \<^verbatim>\<open>nextRoutingTime\<close>.
  \<^verbatim>\<open>nextRoutingTime = NewRoutingTime + 1000.0 * routingStep;
  if ( nextRoutingTime > TotalDuration ) {
      routingStep = (TotalDuration - NewRoutingTime) / 1000.0;
      routingStep = MAX(routingStep, 1./1000.0);
      nextRoutingTime = TotalDuration; }\<close>
\<close>

definition adjustStep :: "'w globals \<Rightarrow> real \<Rightarrow> real \<times> real" where
  "adjustStep g routingStep =
     (if NewRoutingTime g + 1000 * routingStep > TotalDuration g
      then (max ((TotalDuration g - NewRoutingTime g) / 1000) (1 / 1000), TotalDuration g)
      else (routingStep, NewRoutingTime g + 1000 * routingStep))"

text \<open>
  The last statement of \<^verbatim>\<open>execRouting\<close>:
  \<^verbatim>\<open>if ( DoRouting ) routing_execute(RouteModel, routingStep);
  else NewRoutingTime = nextRoutingTime;\<close>
\<close>

definition route :: "'w collab \<Rightarrow> real \<Rightarrow> real \<Rightarrow> 'w sim \<Rightarrow> 'w sim" where
  "route C routingStep nextRoutingTime s =
     (if DoRouting s then invoke C (routing_execute (RouteModel (glob s)) routingStep) s
      else s\<lparr>glob := (glob s)\<lparr>NewRoutingTime := nextRoutingTime\<rparr>\<rparr>)"

text \<open>
  \<^verbatim>\<open>execRouting\<close>. Its argument \<^verbatim>\<open>elapsedTime\<close> is used by the exception filter only.
\<close>

definition execRouting :: "'w collab \<Rightarrow> DateTime \<Rightarrow> 'w sim \<Rightarrow> 'w sim option" where
  "execRouting C elapsedTime s =
     (let (routingStep0, s1) = candidateStep C (countStep s) in
      if routingStep0 \<le> 0
      then Some (s1\<lparr>glob := (glob s1)\<lparr>ErrorCode := ERR_TIMESTEP\<rparr>\<rparr>)
      else
        let (routingStep, nextRoutingTime) = adjustStep (glob s1) routingStep0 in
        if DoRunoff s1 then
          (case runoff_loop C nextRoutingTime s1 of
             None \<Rightarrow> None
           | Some (Returned s2) \<Rightarrow> Some s2
           | Some (Continue s2) \<Rightarrow> Some (route C routingStep nextRoutingTime s2))
        else
          Some (route C routingStep nextRoutingTime
                  (invoke C (climate_setState (getDateTime C (glob s1) (NewRoutingTime (glob s1)))) s1)))"

text \<open>
  The reporting block of \<^verbatim>\<open>swmm_step\<close>:
  \<^verbatim>\<open>if ( NewRoutingTime >= ReportTime ) {
      if ( SaveResultsFlag ) output_saveResults(ReportTime);
      ReportTime = ReportTime + (double)(1000 * ReportStep); }\<close>
\<close>

definition saveAtReportTime :: "'w collab \<Rightarrow> 'w sim \<Rightarrow> 'w sim" where
  "saveAtReportTime C s =
     (if NewRoutingTime (glob s) \<ge> ReportTime (glob s) then
        (let s1 = (if SaveResultsFlag s \<noteq> 0
                   then invoke C (output_saveResults (ReportTime (glob s))) s else s)
         in s1\<lparr>glob := (glob s1)\<lparr>ReportTime :=
                  ReportTime (glob s1) + real_of_int (c_int (1000 * ReportStep (glob s1)))\<rparr>\<rparr>)
      else s)"

text \<open>The value \<^verbatim>\<open>swmm_step\<close> stores in \<^verbatim>\<open>*elapsedTime\<close> at its end.\<close>

definition elapsedDays :: "'w globals \<Rightarrow> real" where
  "elapsedDays g =
     (if NewRoutingTime g < TotalDuration g then NewRoutingTime g / MSECperDAY else 0)"

text \<open>
  \<^verbatim>\<open>swmm_step\<close>: the result is the returned error code, the value of \<^verbatim>\<open>*elapsedTime\<close>
  after the call (the caller's value where the function does not store to it), and the
  new state; \<open>None\<close> when the catch-up loop never ends.
\<close>

definition swmm_step ::
  "'w collab \<Rightarrow> DateTime \<Rightarrow> 'w sim \<Rightarrow> (ErrorType \<times> DateTime \<times> 'w sim) option" where
  "swmm_step C elapsedTime s =
     (if ErrorCode (glob s) \<noteq> ERR_NONE then Some (ErrorCode (glob s), elapsedTime, s)
      else if \<not> IsOpenFlag s \<or> \<not> IsStartedFlag s then
        (let s1 = invoke C (report_writeErrorMsg ERR_NOT_OPEN []) s
         in Some (ErrorCode (glob s1), elapsedTime, s1))
      else
        (case (if NewRoutingTime (glob s) < TotalDuration (glob s)
               then execRouting C elapsedTime s else Some s) of
           None \<Rightarrow> None
         | Some s1 \<Rightarrow>
             (let s2 = saveAtReportTime C s1
              in Some (ErrorCode (glob s2), elapsedDays (glob s2), s2))))"

section \<open>The lifecycle functions\<close>

text \<open>
  \<^verbatim>\<open>swmm_open\<close>. The console output \<^verbatim>\<open>writecon\<close> is empty in this build (it prints
  under \<^verbatim>\<open>CLE\<close> only). The result is the returned error code and the new state.
\<close>

definition swmm_open ::
  "'w collab \<Rightarrow> string \<Rightarrow> string \<Rightarrow> string \<Rightarrow> 'w sim \<Rightarrow> ErrorType \<times> 'w sim" where
  "swmm_open C f1 f2 f3 s =
     (let s0 = invoke C datetime_setDateFormat s;
          s1 = s0\<lparr>IsOpenFlag := False, IsStartedFlag := False, ExceptionCount := 0,
                  glob := (glob s0)\<lparr>ErrorCode := ERR_NONE, WarningCode := 0\<rparr>\<rparr>;
          s2 = invoke C (project_open f1 f2 f3) s1
      in if ErrorCode (glob s2) \<noteq> ERR_NONE then (ErrorCode (glob s2), s2)
         else
           let s3 = invoke C report_writeLogo (s2\<lparr>IsOpenFlag := True\<rparr>);
               s4 = invoke C project_readInput s3
           in if ErrorCode (glob s4) \<noteq> ERR_NONE then (ErrorCode (glob s4), s4)
              else
                let s5 = invoke C project_validate (invoke C report_writeTitle s4);
                    s6 = (if RptFlags_input (glob s5)
                          then invoke C inputrpt_writeInput s5 else s5)
                in (ErrorCode (glob s6), s6))"

text \<open>
  The initialisation block of \<^verbatim>\<open>swmm_start\<close>: the three clocks (in milliseconds), the
  counters, the started flag and the continuity errors.
\<close>

definition start_init :: "'w sim \<Rightarrow> 'w sim" where
  "start_init s =
     s\<lparr>IsStartedFlag := True,
       glob := (glob s)\<lparr>NewRunoffTime := 0, NewRoutingTime := 0,
                 ReportTime := real_of_int (c_int (1000 * ReportStep (glob s))),
                 StepCount := 0, NonConvergeCount := 0,
                 RunoffError := 0, GwaterError := 0, FlowError := 0, QualError := 0\<rparr>\<rparr>"

text \<open>
  The part of \<^verbatim>\<open>swmm_start\<close> from \<^verbatim>\<open>project_init\<close> on, reached when the rainfall
  processor reported no error.
\<close>

definition start_systems :: "'w collab \<Rightarrow> int \<Rightarrow> 'w sim \<Rightarrow> ErrorType \<times> 'w sim" where
  "start_systems C saveResults s =
     (let s1 = invoke C project_init s;
          s2 = s1\<lparr>DoRunoff := (Nobjects (glob s1) SUBCATCH > 0),
                  DoRouting := (Nobjects (glob s1) NODE > 0 \<and> \<not> IgnoreRouting (glob s1))\<rparr>;
          s3 = invoke C output_open s2;
          s4 = (if DoRunoff s3 then invoke C runoff_open s3 else s3);
          (ok, s5) = invoke_hotstart_open C s4
      in if \<not> ok then (ErrorCode (glob s5), s5)
         else
           let s6 = (if DoRouting s5 then invoke C routing_open s5 else s5);
               s7 = invoke C stats_open (invoke C massbal_open s6);
               s8 = invoke C report_writeOptions s7;
               s9 = (if RptFlags_controls (glob s8)
                     then invoke C report_writeControlActionsHeading s8 else s8);
               s10 = s9\<lparr>SaveResultsFlag := saveResults\<rparr>
           in (ErrorCode (glob s10), s10))"

text \<open>\<^verbatim>\<open>swmm_start\<close>, with the argument \<^verbatim>\<open>saveResults\<close> a C \<^verbatim>\<open>int\<close>.\<close>

definition swmm_start :: "'w collab \<Rightarrow> int \<Rightarrow> 'w sim \<Rightarrow> ErrorType \<times> 'w sim" where
  "swmm_start C saveResults s =
     (if ErrorCode (glob s) \<noteq> ERR_NONE then (ErrorCode (glob s), s)
      else if \<not> IsOpenFlag s \<or> IsStartedFlag s then
        (let s1 = invoke C (report_writeErrorMsg ERR_NOT_OPEN []) s
         in (ErrorCode (glob s1), s1))
      else
        let s1 = start_init (s\<lparr>ExceptionCount := 0\<rparr>);
            s2 = (if \<not> IgnoreRainfall (glob s1) then invoke C rain_open s1 else s1)
        in if ErrorCode (glob s2) \<noteq> ERR_NONE then (ErrorCode (glob s2), s2)
           else start_systems C saveResults s2)"

text \<open>\<^verbatim>\<open>swmm_end\<close>.\<close>

definition swmm_end :: "'w collab \<Rightarrow> 'w sim \<Rightarrow> ErrorType \<times> 'w sim" where
  "swmm_end C s =
     (if \<not> IsOpenFlag s then
        (let s1 = invoke C (report_writeErrorMsg ERR_NOT_OPEN []) s
         in (ErrorCode (glob s1), s1))
      else if IsStartedFlag s then
        (let s1 = (if Fout_file (glob s) then invoke C output_end s else s);
             s2 = (if ErrorCode (glob s1) = ERR_NONE
                   then invoke C stats_report (invoke C massbal_report s1) else s1);
             s3 = invoke C massbal_close (invoke C stats_close s2);
             s4 = (if \<not> IgnoreRainfall (glob s3) then invoke C rain_close s3 else s3);
             s5 = (if DoRunoff s4 then invoke C runoff_close s4 else s4);
             s6 = (if DoRouting s5
                   then invoke C (routing_close (RouteModel (glob s5))) s5 else s5);
             s7 = (invoke C hotstart_close s6)\<lparr>IsStartedFlag := False\<rparr>
         in (ErrorCode (glob s7), s7))
      else (ErrorCode (glob s), s))"

section \<open>The coupling functions on nodes\<close>

text \<open>
  \<^verbatim>\<open>Node\<close> is a C array: reading or writing \<^verbatim>\<open>Node[index]\<close> is defined only when the
  element exists. The model makes the other case a result of its own, \<open>Fault\<close>
  (undefined behaviour in C); \<open>Done\<close> carries the result of a call that stays inside
  the array.
\<close>

datatype 'a access = Fault | Done 'a

definition inNode :: "'w globals \<Rightarrow> int \<Rightarrow> bool" where
  "inNode g index \<longleftrightarrow> 0 \<le> index \<and> index < int (length (Node g))"

text \<open>
  \<^verbatim>\<open>swmm_getNodeData\<close>: \<open>data\<close> is the caller's structure, returned as the call
  leaves it.
\<close>

definition swmm_getNodeData ::
  "int \<Rightarrow> nodeData \<Rightarrow> 'w sim \<Rightarrow> (ErrorType \<times> nodeData) access" where
  "swmm_getNodeData index data s =
     (if IsOpenFlag s then
        (if inNode (glob s) index then
           (let n = Node (glob s) ! nat index in
            Done (ERR_NONE,
              data\<lparr>nd_inflow := inflow n, nd_outflow := outflow n,
                   nd_head := invertElev n + newDepth n,
                   nd_crestElev := invertElev n + fullDepth n,
                   nd_type := type n, nd_subIndex := subIndex n,
                   nd_invertElev := invertElev n, nd_initDepth := initDepth n,
                   nd_fullDepth := fullDepth n, nd_surDepth := surDepth n,
                   nd_pondedArea := pondedArea n, nd_degree := degree n,
                   nd_updated := updated n, nd_crownElev := crownElev n,
                   nd_losses := losses n, nd_newVolume := newVolume n,
                   nd_fullVolume := fullVolume n, nd_overflow := overflow n,
                   nd_newDepth := newDepth n, nd_newLatFlow := newLatFlow n\<rparr>))
         else Fault)
      else Done (ERR_NOT_OPEN, data))"

text \<open>\<^verbatim>\<open>swmm_addNodeInflow\<close>: \<^verbatim>\<open>Node[index].dllInflow += inflow\<close>.\<close>

definition swmm_addNodeInflow ::
  "int \<Rightarrow> real \<Rightarrow> 'w sim \<Rightarrow> (ErrorType \<times> 'w sim) access" where
  "swmm_addNodeInflow index inflow' s =
     (if IsOpenFlag s then
        (if inNode (glob s) index then
           Done (ERR_NONE,
             s\<lparr>glob := (glob s)\<lparr>Node := (Node (glob s))
                 [nat index := (Node (glob s) ! nat index)
                    \<lparr>dllInflow := dllInflow (Node (glob s) ! nat index) + inflow'\<rparr>]\<rparr>\<rparr>)
         else Fault)
      else Done (ERR_NOT_OPEN, s))"

text \<open>
  \<^verbatim>\<open>swmm_getNodeID\<close>, the sibling that compares the index with the node count before
  it reads the array. \<open>maxline\<close> is the constant \<^verbatim>\<open>MAXLINE\<close> of the missing \<^verbatim>\<open>consts.h\<close>;
  \<^verbatim>\<open>sstrncpy\<close> copies at most that many characters.
\<close>

definition swmm_getNodeID ::
  "nat \<Rightarrow> int \<Rightarrow> string \<Rightarrow> 'w sim \<Rightarrow> (ErrorType \<times> string) access" where
  "swmm_getNodeID maxline index id' s =
     (if IsOpenFlag s then
        (if index \<ge> Nobjects (glob s) NODE then Done (ERR_NUMBER, id')
         else if inNode (glob s) index
         then Done (ERR_NONE, take maxline (ID (Node (glob s) ! nat index)))
         else Fault)
      else Done (ERR_NOT_OPEN, id'))"

section \<open>What the theorems assume of the other modules\<close>

text \<open>
  Modelled from the spec: the routing, climate and output modules that \<^verbatim>\<open>swmm5.c\<close>
  calls are missing. Section 6 of the specification gives their interface: the routing
  engine's \<open>getStepLength\<close> returns seconds; the climate state's
  \<open>setState\<close> "updates slow boundary conditions"; the result stream's \<open>saveResults\<close>
  persists a snapshot. The three predicates below say that the step query, the climate
  update and the saving of results write nothing but the state of their own module
  (\<open>world\<close>).
\<close>

definition world_only :: "('w globals \<Rightarrow> 'w globals) \<Rightarrow> bool" where
  "world_only f \<longleftrightarrow> (\<forall>g. f g = g\<lparr>world := world (f g)\<rparr>)"

definition saveResults_frame :: "'w collab \<Rightarrow> bool" where
  "saveResults_frame C \<longleftrightarrow> (\<forall>t. world_only (extern C (output_saveResults t)))"

definition climate_frame :: "'w collab \<Rightarrow> bool" where
  "climate_frame C \<longleftrightarrow> (\<forall>d. world_only (extern C (climate_setState d)))"

definition getRoutingStep_frame :: "'w collab \<Rightarrow> bool" where
  "getRoutingStep_frame C \<longleftrightarrow> (\<forall>m dt. world_only (\<lambda>g. snd (getRoutingStep C m dt g)))"

text \<open>
  Modelled from the spec: \<^verbatim>\<open>runoff_execute\<close> and \<^verbatim>\<open>routing_execute\<close> are missing.
  Section 3 of the specification calls \<open>newRunoffTime\<close> and \<open>newRoutingTime\<close> "each
  sub-model's own advancing clock", and the total duration is fixed for the run. So
  the runoff engine writes neither the routing clock nor the total duration, and the
  routing engine writes neither the runoff clock nor the total duration. Everything
  else (the state of the nodes, the counters, the error and warning codes, the
  continuity errors) they may change.
\<close>

definition runoff_frame :: "'w collab \<Rightarrow> bool" where
  "runoff_frame C \<longleftrightarrow>
     (\<forall>g. NewRoutingTime (extern C runoff_execute g) = NewRoutingTime g \<and>
          TotalDuration (extern C runoff_execute g) = TotalDuration g)"

definition routing_frame :: "'w collab \<Rightarrow> bool" where
  "routing_frame C \<longleftrightarrow>
     (\<forall>m dt g. NewRunoffTime (extern C (routing_execute m dt) g) = NewRunoffTime g \<and>
          TotalDuration (extern C (routing_execute m dt) g) = TotalDuration g)"


text \<open>
  Modelled from the spec: \<^verbatim>\<open>runoff_execute\<close> is missing. Section 6: the runoff
  engine's \<open>execute\<close> "advances its own clock by one internal step". The steps of an
  engine that has run without error are not shorter than some fixed positive time.
\<close>

definition runoff_progress :: "'w collab \<Rightarrow> bool" where
  "runoff_progress C \<longleftrightarrow>
     (\<exists>d>0. \<forall>g. ErrorCode (extern C runoff_execute g) = ERR_NONE \<longrightarrow>
        NewRunoffTime g + d \<le> NewRunoffTime (extern C runoff_execute g))"

text \<open>
  Modelled from the spec: \<^verbatim>\<open>report_writeErrorMsg\<close> is missing. The lifecycle functions
  return \<^verbatim>\<open>ErrorCode\<close> right after calling it, and the specification says such a call
  "is rejected with a distinct not-open condition": the function records its code in
  \<^verbatim>\<open>ErrorCode\<close>; its other effect is on the report file.
\<close>

definition writeErrorMsg_sets_code :: "'w collab \<Rightarrow> bool" where
  "writeErrorMsg_sets_code C \<longleftrightarrow>
     (\<forall>code msg g. extern C (report_writeErrorMsg code msg) g =
        g\<lparr>world := world (extern C (report_writeErrorMsg code msg) g), ErrorCode := code\<rparr>)"

text \<open>
  The state of the engine and the values of the locals \<^verbatim>\<open>routingStep\<close> and
  \<^verbatim>\<open>nextRoutingTime\<close> of \<^verbatim>\<open>execRouting\<close>, called on \<open>s\<close>, at the point where it has
  adjusted the step and turns to runoff.
\<close>

definition atRunoff :: "'w collab \<Rightarrow> 'w sim \<Rightarrow> 'w sim" where
  "atRunoff C s = snd (candidateStep C (countStep s))"

definition routingStep_at :: "'w collab \<Rightarrow> 'w sim \<Rightarrow> real" where
  "routingStep_at C s =
     fst (adjustStep (glob (atRunoff C s)) (fst (candidateStep C (countStep s))))"

definition nextRoutingTime_at :: "'w collab \<Rightarrow> 'w sim \<Rightarrow> real" where
  "nextRoutingTime_at C s =
     snd (adjustStep (glob (atRunoff C s)) (fst (candidateStep C (countStep s))))"

text \<open>The calls that advance the runoff, climate or routing state.\<close>

fun advances :: "proc \<Rightarrow> bool" where
  "advances runoff_execute = True"
| "advances (climate_setState d) = True"
| "advances (routing_execute m dt) = True"
| "advances _ = False"

fun runoff_or_climate :: "proc \<Rightarrow> bool" where
  "runoff_or_climate runoff_execute = True"
| "runoff_or_climate (climate_setState d) = True"
| "runoff_or_climate _ = False"

fun is_saveResults :: "proc \<Rightarrow> bool" where
  "is_saveResults (output_saveResults t) = True"
| "is_saveResults _ = False"

text \<open>The external functions that \<^verbatim>\<open>swmm_open\<close> calls after it has cleared the codes.\<close>

fun open_proc :: "proc \<Rightarrow> bool" where
  "open_proc (project_open f1 f2 f3) = True"
| "open_proc report_writeLogo = True"
| "open_proc project_readInput = True"
| "open_proc report_writeTitle = True"
| "open_proc project_validate = True"
| "open_proc inputrpt_writeInput = True"
| "open_proc _ = False"



text \<open>
  A sequence of \<open>n\<close> successful calls of \<^verbatim>\<open>swmm_step\<close>, each passing on the elapsed
  time the one before stored, as the loop of \<^verbatim>\<open>swmm_run\<close> does; \<open>None\<close> when a call
  returns an error code or never returns.
\<close>

fun run_steps :: "'w collab \<Rightarrow> nat \<Rightarrow> DateTime \<Rightarrow> 'w sim \<Rightarrow> (DateTime \<times> 'w sim) option" where
  "run_steps C 0 elapsedTime s = Some (elapsedTime, s)"
| "run_steps C (Suc n) elapsedTime s =
     (case swmm_step C elapsedTime s of
        None \<Rightarrow> None
      | Some (rc, elapsedTime', s') \<Rightarrow>
          if rc = ERR_NONE then run_steps C n elapsedTime' s' else None)"

section \<open>A sample project and sample collaborators\<close>

text \<open>
  Concrete collaborators for the concrete runs below: the runoff engine advances its
  clock by five minutes, the routing engine advances the routing clock by the
  step it is given, the error reporter records its code, and every other function
  does nothing.
\<close>

definition demo_extern :: "proc \<Rightarrow> unit globals \<Rightarrow> unit globals" where
  "demo_extern p g =
     (case p of
        runoff_execute \<Rightarrow> g\<lparr>NewRunoffTime := NewRunoffTime g + 300000\<rparr>
      | routing_execute m dt \<Rightarrow> g\<lparr>NewRoutingTime := NewRoutingTime g + 1000 * dt\<rparr>
      | report_writeErrorMsg c m \<Rightarrow> g\<lparr>ErrorCode := c\<rparr>
      | _ \<Rightarrow> g)"

definition demo :: "unit collab" where
  "demo = \<lparr>extern = demo_extern,
           getRoutingStep = (\<lambda>m dt g. (dt, g)),
           hotstartOpen = (\<lambda>g. (True, g)),
           datetime_addSeconds = (\<lambda>d secs. d + secs / 86400)\<rparr>"

text \<open>
  The same collaborators with a runoff engine that fails: it advances its clock and
  leaves an error code.
\<close>

definition failing :: "unit collab" where
  "failing = demo\<lparr>extern := (\<lambda>p g. case p of
       runoff_execute \<Rightarrow> g\<lparr>NewRunoffTime := NewRunoffTime g + 300000, ErrorCode := ERR_OTHER 1\<rparr>
     | _ \<Rightarrow> demo_extern p g)\<rparr>"

text \<open>
  A one-hour project (3600000 ms) with a 15 minute report step, a 5 minute wet-weather
  step and a 20 second routing step.
\<close>

definition demo_globals :: "unit globals" where
  "demo_globals =
     \<lparr>ErrorCode = ERR_NONE, WarningCode = 0, NewRunoffTime = 0, NewRoutingTime = 0,
      ReportTime = 900000, TotalDuration = 3600000, StepCount = 0, NonConvergeCount = 0,
      ReportStep = 900, WetStep = 300, RouteStep = 20, RouteModel = 0,
      StartDateTime = 40000, IgnoreRainfall = False, IgnoreRouting = False,
      Nobjects = (\<lambda>k. 2), RunoffError = 0, GwaterError = 0, FlowError = 0, QualError = 0,
      RptFlags_input = False, RptFlags_controls = False, Fout_file = True, Node = [],
      world = ()\<rparr>"

text \<open>The engine right after a successful start of that project.\<close>

definition demo_sim :: "unit sim" where
  "demo_sim =
     \<lparr>IsOpenFlag = True, IsStartedFlag = True, SaveResultsFlag = 1, ExceptionCount = 0,
      DoRunoff = True, DoRouting = True, glob = demo_globals, calls = []\<rparr>"

text \<open>A sample node, and the sample run with two such nodes.\<close>

definition demo_node :: TNode where
  "demo_node =
     \<lparr>ID = ''J1'', type = 0, subIndex = 0, invertElev = 10, initDepth = 0, fullDepth = 3,
      surDepth = 0, pondedArea = 0, degree = 1, updated = 0, crownElev = 12, inflow = 4,
      outflow = 3, losses = 0, newVolume = 5, fullVolume = 30, overflow = 0, newDepth = 1,
      newLatFlow = 0, dllInflow = 2\<rparr>"

definition demo_data :: nodeData where
  "demo_data =
     \<lparr>nd_inflow = 0, nd_outflow = 0, nd_head = 0, nd_crestElev = 0, nd_type = 0,
      nd_subIndex = 0, nd_invertElev = 0, nd_initDepth = 0, nd_fullDepth = 0, nd_surDepth = 0,
      nd_pondedArea = 0, nd_degree = 0, nd_updated = 0, nd_crownElev = 0, nd_losses = 0,
      nd_newVolume = 0, nd_fullVolume = 0, nd_overflow = 0, nd_newDepth = 0,
      nd_newLatFlow = 0\<rparr>"

definition demo_nodes_sim :: "unit sim" where
  "demo_nodes_sim = demo_sim\<lparr>glob := demo_globals\<lparr>Node := [demo_node, demo_node]\<rparr>\<rparr>"

section \<open>Basic facts\<close>


lemma invoke_simps [simp]:
  "glob (invoke C p s) = extern C p (glob s)"
  "calls (invoke C p s) = calls s @ [p]"
  "IsOpenFlag (invoke C p s) = IsOpenFlag s"
  "IsStartedFlag (invoke C p s) = IsStartedFlag s"
  "SaveResultsFlag (invoke C p s) = SaveResultsFlag s"
  "ExceptionCount (invoke C p s) = ExceptionCount s"
  "DoRunoff (invoke C p s) = DoRunoff s"
  "DoRouting (invoke C p s) = DoRouting s"
  by (simp_all add: invoke_def)

lemma countStep_simps [simp]:
  "calls (countStep s) = calls s"
  "IsOpenFlag (countStep s) = IsOpenFlag s"
  "IsStartedFlag (countStep s) = IsStartedFlag s"
  "SaveResultsFlag (countStep s) = SaveResultsFlag s"
  "DoRunoff (countStep s) = DoRunoff s"
  "DoRouting (countStep s) = DoRouting s"
  "glob (countStep s) = (glob s)\<lparr>StepCount := StepCount (glob s) + 1\<rparr>"
  by (simp_all add: countStep_def)

lemma world_only_keeps:
  assumes "world_only f"
  shows "ErrorCode (f g) = ErrorCode g"
    and "NewRunoffTime (f g) = NewRunoffTime g"
    and "NewRoutingTime (f g) = NewRoutingTime g"
    and "ReportTime (f g) = ReportTime g"
    and "TotalDuration (f g) = TotalDuration g"
    and "StepCount (f g) = StepCount g"
    and "ReportStep (f g) = ReportStep g"
    and "StartDateTime (f g) = StartDateTime g"
proof -
  have eq: "f g = g\<lparr>world := world (f g)\<rparr>"
    using assms by (simp add: world_only_def)
  show "ErrorCode (f g) = ErrorCode g" using arg_cong[OF eq, of ErrorCode] by simp
  show "NewRunoffTime (f g) = NewRunoffTime g" using arg_cong[OF eq, of NewRunoffTime] by simp
  show "NewRoutingTime (f g) = NewRoutingTime g" using arg_cong[OF eq, of NewRoutingTime] by simp
  show "ReportTime (f g) = ReportTime g" using arg_cong[OF eq, of ReportTime] by simp
  show "TotalDuration (f g) = TotalDuration g" using arg_cong[OF eq, of TotalDuration] by simp
  show "StepCount (f g) = StepCount g" using arg_cong[OF eq, of StepCount] by simp
  show "ReportStep (f g) = ReportStep g" using arg_cong[OF eq, of ReportStep] by simp
  show "StartDateTime (f g) = StartDateTime g" using arg_cong[OF eq, of StartDateTime] by simp
qed

lemmas saveResults_keeps =
  world_only_keeps [OF saveResults_frame_def [THEN iffD1, rule_format]]

lemmas climate_keeps =
  world_only_keeps [OF climate_frame_def [THEN iffD1, rule_format]]

lemma getRoutingStep_keeps:
  assumes "getRoutingStep_frame C"
  shows "ErrorCode (snd (getRoutingStep C m dt g)) = ErrorCode g"
    and "NewRunoffTime (snd (getRoutingStep C m dt g)) = NewRunoffTime g"
    and "NewRoutingTime (snd (getRoutingStep C m dt g)) = NewRoutingTime g"
    and "ReportTime (snd (getRoutingStep C m dt g)) = ReportTime g"
    and "TotalDuration (snd (getRoutingStep C m dt g)) = TotalDuration g"
    and "StepCount (snd (getRoutingStep C m dt g)) = StepCount g"
    and "ReportStep (snd (getRoutingStep C m dt g)) = ReportStep g"
    and "StartDateTime (snd (getRoutingStep C m dt g)) = StartDateTime g"
  using world_only_keeps [of "\<lambda>g. snd (getRoutingStep C m dt g)" g] assms
  by (simp_all add: getRoutingStep_frame_def)

lemma routing_keeps:
  assumes "routing_frame C"
  shows "NewRunoffTime (extern C (routing_execute m dt) g) = NewRunoffTime g"
    and "TotalDuration (extern C (routing_execute m dt) g) = TotalDuration g"
  using assms by (simp_all add: routing_frame_def)


lemma route_simps [simp]:
  "IsOpenFlag (route C dt nxt s) = IsOpenFlag s"
  "IsStartedFlag (route C dt nxt s) = IsStartedFlag s"
  "SaveResultsFlag (route C dt nxt s) = SaveResultsFlag s"
  "DoRunoff (route C dt nxt s) = DoRunoff s"
  "DoRouting (route C dt nxt s) = DoRouting s"
  "filter runoff_or_climate (calls (route C dt nxt s)) = filter runoff_or_climate (calls s)"
  "filter is_saveResults (calls (route C dt nxt s)) = filter is_saveResults (calls s)"
  by (simp_all add: route_def)

lemma route_keeps_runoff_clock:
  assumes "\<not> DoRouting s \<or> routing_frame C"
  shows "NewRunoffTime (glob (route C dt nxt s)) = NewRunoffTime (glob s)"
proof (cases "DoRouting s")
  case False
  then show ?thesis by (simp add: route_def)
next
  case True
  with assms have "routing_frame C" by simp
  then show ?thesis by (simp add: route_def routing_keeps)
qed

lemma saveAtReportTime_simps [simp]:
  "IsOpenFlag (saveAtReportTime C s) = IsOpenFlag s"
  "IsStartedFlag (saveAtReportTime C s) = IsStartedFlag s"
  "SaveResultsFlag (saveAtReportTime C s) = SaveResultsFlag s"
  "DoRunoff (saveAtReportTime C s) = DoRunoff s"
  "DoRouting (saveAtReportTime C s) = DoRouting s"
  by (simp_all add: saveAtReportTime_def Let_def)

lemma saveAtReportTime_keeps:
  assumes "saveResults_frame C"
  shows "ErrorCode (glob (saveAtReportTime C s)) = ErrorCode (glob s)"
    and "NewRunoffTime (glob (saveAtReportTime C s)) = NewRunoffTime (glob s)"
    and "NewRoutingTime (glob (saveAtReportTime C s)) = NewRoutingTime (glob s)"
    and "TotalDuration (glob (saveAtReportTime C s)) = TotalDuration (glob s)"
    and "StepCount (glob (saveAtReportTime C s)) = StepCount (glob s)"
    and "filter advances (calls (saveAtReportTime C s)) = filter advances (calls s)"
  by (simp_all add: saveAtReportTime_def Let_def saveResults_keeps [OF assms])

lemma candidateStep_simps [simp]:
  "IsOpenFlag (snd (candidateStep C s)) = IsOpenFlag s"
  "IsStartedFlag (snd (candidateStep C s)) = IsStartedFlag s"
  "SaveResultsFlag (snd (candidateStep C s)) = SaveResultsFlag s"
  "DoRunoff (snd (candidateStep C s)) = DoRunoff s"
  "DoRouting (snd (candidateStep C s)) = DoRouting s"
  "filter advances (calls (snd (candidateStep C s))) = filter advances (calls s)"
  "filter runoff_or_climate (calls (snd (candidateStep C s))) = filter runoff_or_climate (calls s)"
  "filter is_saveResults (calls (snd (candidateStep C s))) = filter is_saveResults (calls s)"
  by (simp_all add: candidateStep_def invoke_getRoutingStep_def)

lemma atRunoff_simps [simp]:
  "IsOpenFlag (atRunoff C s) = IsOpenFlag s"
  "IsStartedFlag (atRunoff C s) = IsStartedFlag s"
  "SaveResultsFlag (atRunoff C s) = SaveResultsFlag s"
  "DoRunoff (atRunoff C s) = DoRunoff s"
  "DoRouting (atRunoff C s) = DoRouting s"
  "filter advances (calls (atRunoff C s)) = filter advances (calls s)"
  "filter runoff_or_climate (calls (atRunoff C s)) = filter runoff_or_climate (calls s)"
  "filter is_saveResults (calls (atRunoff C s)) = filter is_saveResults (calls s)"
  by (simp_all add: atRunoff_def)

lemma atRunoff_glob:
  "\<not> DoRouting s \<Longrightarrow> glob (atRunoff C s) = (glob s)\<lparr>StepCount := StepCount (glob s) + 1\<rparr>"
  "DoRouting s \<Longrightarrow> glob (atRunoff C s) =
     snd (getRoutingStep C (RouteModel (glob s)) (RouteStep (glob s))
            ((glob s)\<lparr>StepCount := StepCount (glob s) + 1\<rparr>))"
  by (simp_all add: atRunoff_def candidateStep_def invoke_getRoutingStep_def)

lemma atRunoff_keeps:
  assumes "\<not> DoRouting s \<or> getRoutingStep_frame C"
  shows "NewRoutingTime (glob (atRunoff C s)) = NewRoutingTime (glob s)"
    and "NewRunoffTime (glob (atRunoff C s)) = NewRunoffTime (glob s)"
    and "TotalDuration (glob (atRunoff C s)) = TotalDuration (glob s)"
    and "StartDateTime (glob (atRunoff C s)) = StartDateTime (glob s)"
    and "ReportTime (glob (atRunoff C s)) = ReportTime (glob s)"
    and "ReportStep (glob (atRunoff C s)) = ReportStep (glob s)"
    and "ErrorCode (glob (atRunoff C s)) = ErrorCode (glob s)"
    and "StepCount (glob (atRunoff C s)) = StepCount (glob s) + 1"
  using assms by (cases "DoRouting s"; simp add: atRunoff_glob getRoutingStep_keeps)+

lemma execRouting_invalid:
  assumes "fst (candidateStep C (countStep s)) \<le> 0"
  shows "execRouting C e s =
           Some ((snd (candidateStep C (countStep s)))
                   \<lparr>glob := (glob (snd (candidateStep C (countStep s))))\<lparr>ErrorCode := ERR_TIMESTEP\<rparr>\<rparr>)"
  using assms by (simp add: execRouting_def split_beta)

section \<open>The candidate routing step\<close>

text \<open>
  C8, as the code has it: the flag that selects the smaller of the wet-weather and the
  report step is \<open>DoRouting\<close>, not \<open>DoRunoff\<close>. With routing disabled the candidate step
  is that minimum and the routing module is not asked; with routing enabled it is the
  value the routing module returns, whatever \<open>DoRunoff\<close> is.
\<close>

theorem candidateStep_by_DoRouting:
  "(\<not> DoRouting s \<longrightarrow>
      candidateStep C s = (real_of_int (min (WetStep (glob s)) (ReportStep (glob s))), s)) \<and>
   (DoRouting s \<longrightarrow>
      fst (candidateStep C s)
        = fst (getRoutingStep C (RouteModel (glob s)) (RouteStep (glob s)) (glob s)))"
  by (simp add: candidateStep_def invoke_getRoutingStep_def)

theorem candidateStep_by_DoRouting_witness:
  "\<not> DoRouting (demo_sim\<lparr>DoRouting := False\<rparr>) \<and>
   candidateStep demo (demo_sim\<lparr>DoRouting := False\<rparr>) = (300, demo_sim\<lparr>DoRouting := False\<rparr>) \<and>
   DoRouting demo_sim \<and> fst (candidateStep demo demo_sim) = 20"
  using candidateStep_by_DoRouting [of "demo_sim\<lparr>DoRouting := False\<rparr>" demo]
    candidateStep_by_DoRouting [of demo_sim demo]
  by (simp add: demo_sim_def demo_globals_def demo_def)

text \<open>
  The claim C8 as it is worded fails: with runoff inactive and routing active, the
  candidate step is the routing module's 20 seconds, not the minimum 300 of the
  wet-weather step 300 and the report step 900.
\<close>

theorem candidateStep_DoRunoff_counterexample:
  "\<not> DoRunoff (demo_sim\<lparr>DoRunoff := False\<rparr>) \<and>
   fst (candidateStep demo (countStep (demo_sim\<lparr>DoRunoff := False\<rparr>))) = 20 \<and>
   real_of_int (min (WetStep (glob (demo_sim\<lparr>DoRunoff := False\<rparr>)))
                    (ReportStep (glob (demo_sim\<lparr>DoRunoff := False\<rparr>)))) = 300"
  by (simp add: candidateStep_def invoke_getRoutingStep_def demo_sim_def demo_globals_def demo_def)

lemmas demo_defs = demo_def demo_extern_def demo_globals_def demo_sim_def

lemma demo_frames:
  "saveResults_frame demo" "climate_frame demo" "getRoutingStep_frame demo"
  "runoff_frame demo" "routing_frame demo" "writeErrorMsg_sets_code demo"
  by (simp_all add: saveResults_frame_def climate_frame_def getRoutingStep_frame_def
      runoff_frame_def routing_frame_def writeErrorMsg_sets_code_def world_only_def
      demo_def demo_extern_def)


lemma demo_runoff_progress: "runoff_progress demo"
  unfolding runoff_progress_def
  by (intro exI [of _ 300000]) (simp add: demo_def demo_extern_def)

lemma runoff_loop_unfold:
  "NewRunoffTime (glob s) < nxt \<Longrightarrow> ErrorCode (extern C runoff_execute (glob s)) = ERR_NONE \<Longrightarrow>
     runoff_loop C nxt s = runoff_loop C nxt (invoke C runoff_execute s)"
  "NewRunoffTime (glob s) < nxt \<Longrightarrow> ErrorCode (extern C runoff_execute (glob s)) \<noteq> ERR_NONE \<Longrightarrow>
     runoff_loop C nxt s = Some (Returned (invoke C runoff_execute s))"
  "\<not> NewRunoffTime (glob s) < nxt \<Longrightarrow> runoff_loop C nxt s = Some (Continue s)"
  by (subst runoff_loop.simps, simp)+

section \<open>The invalid time step\<close>

text \<open>
  C5: when the candidate routing step that \<^verbatim>\<open>execRouting\<close> computes is not positive,
  \<^verbatim>\<open>execRouting\<close> returns at once with \<open>ErrorCode = ERR_TIMESTEP\<close>: no call of the
  runoff, climate or routing modules is made, and \<open>NewRoutingTime\<close> is what it was
  (with routing enabled: the routing module's step query writing only to its own
  state). A \<^verbatim>\<open>swmm_step\<close> on a started run then returns \<open>ERR_TIMESTEP\<close>, with that
  error code in its final state, no such call made and the routing clock the same
  (the output module writing only to its own state).
\<close>

theorem execRouting_invalid_timestep:
  assumes "fst (candidateStep C (countStep s)) \<le> 0"
  shows "\<exists>s1. execRouting C e s = Some s1 \<and>
            ErrorCode (glob s1) = ERR_TIMESTEP \<and>
            filter advances (calls s1) = filter advances (calls s) \<and>
            (\<not> DoRouting s \<or> getRoutingStep_frame C \<longrightarrow>
               NewRoutingTime (glob s1) = NewRoutingTime (glob s) \<and>
               NewRunoffTime (glob s1) = NewRunoffTime (glob s)) \<and>
            (ErrorCode (glob s) = ERR_NONE \<and> IsOpenFlag s \<and> IsStartedFlag s \<and>
             NewRoutingTime (glob s) < TotalDuration (glob s) \<and> saveResults_frame C \<longrightarrow>
               (\<exists>t s'. swmm_step C e s = Some (ERR_TIMESTEP, t, s') \<and>
                  ErrorCode (glob s') = ERR_TIMESTEP \<and>
                  filter advances (calls s') = filter advances (calls s) \<and>
                  (\<not> DoRouting s \<or> getRoutingStep_frame C \<longrightarrow>
                     NewRoutingTime (glob s') = NewRoutingTime (glob s))))"
proof -
  let ?s0 = "snd (candidateStep C (countStep s))"
  let ?s1 = "?s0\<lparr>glob := (glob ?s0)\<lparr>ErrorCode := ERR_TIMESTEP\<rparr>\<rparr>"
  have ex: "execRouting C e s = Some ?s1"
    by (rule execRouting_invalid [OF assms])
  have err: "ErrorCode (glob ?s1) = ERR_TIMESTEP" by simp
  have adv: "filter advances (calls ?s1) = filter advances (calls s)" by simp
  have clocks: "NewRoutingTime (glob ?s1) = NewRoutingTime (glob s) \<and>
                NewRunoffTime (glob ?s1) = NewRunoffTime (glob s)"
    if "\<not> DoRouting s \<or> getRoutingStep_frame C"
  proof (cases "DoRouting s")
    case False
    then show ?thesis by (simp add: candidateStep_def)
  next
    case True
    with that have "getRoutingStep_frame C" by simp
    then show ?thesis
      by (simp add: candidateStep_def invoke_getRoutingStep_def getRoutingStep_keeps)
  qed
  have step: "\<exists>t s'. swmm_step C e s = Some (ERR_TIMESTEP, t, s') \<and>
                  ErrorCode (glob s') = ERR_TIMESTEP \<and>
                  filter advances (calls s') = filter advances (calls s) \<and>
                  (\<not> DoRouting s \<or> getRoutingStep_frame C \<longrightarrow>
                     NewRoutingTime (glob s') = NewRoutingTime (glob s))"
    if "ErrorCode (glob s) = ERR_NONE \<and> IsOpenFlag s \<and> IsStartedFlag s \<and>
        NewRoutingTime (glob s) < TotalDuration (glob s) \<and> saveResults_frame C"
  proof -
    from that have fr: "saveResults_frame C" by simp
    have "swmm_step C e s =
        Some (ErrorCode (glob (saveAtReportTime C ?s1)), elapsedDays (glob (saveAtReportTime C ?s1)),
              saveAtReportTime C ?s1)"
      using that ex by (simp add: swmm_step_def Let_def)
    then show ?thesis
      using saveAtReportTime_keeps [OF fr, of ?s1] err clocks adv by simp
  qed
  from ex err adv clocks step show ?thesis by blast
qed

text \<open>
  A run at its first step whose routing module answers 0 (the routing step of the
  project is 0): the step returns \<open>ERR_TIMESTEP\<close> and the routing clock stays at 0.
\<close>

theorem execRouting_invalid_timestep_witness:
  "fst (candidateStep demo (countStep (demo_sim\<lparr>glob := demo_globals\<lparr>RouteStep := 0\<rparr>\<rparr>))) \<le> 0 \<and>
   (\<exists>t s'. swmm_step demo 0 (demo_sim\<lparr>glob := demo_globals\<lparr>RouteStep := 0\<rparr>\<rparr>)
              = Some (ERR_TIMESTEP, t, s') \<and>
            ErrorCode (glob s') = ERR_TIMESTEP \<and> NewRoutingTime (glob s') = 0)"
proof -
  let ?s = "demo_sim\<lparr>glob := demo_globals\<lparr>RouteStep := 0\<rparr>\<rparr>"
  have h1: "fst (candidateStep demo (countStep ?s)) \<le> 0"
    by (simp add: candidateStep_def invoke_getRoutingStep_def demo_defs)
  have h2: "ErrorCode (glob ?s) = ERR_NONE \<and> IsOpenFlag ?s \<and> IsStartedFlag ?s \<and>
     NewRoutingTime (glob ?s) < TotalDuration (glob ?s) \<and> saveResults_frame demo"
    by (simp add: demo_frames) (simp add: demo_defs)
  have h3: "NewRoutingTime (glob ?s) = 0" by (simp add: demo_defs)
  from execRouting_invalid_timestep [OF h1, of 0] h2 h3 demo_frames(3)
  show ?thesis using h1 by auto
qed

section \<open>The catch-up loop\<close>

lemma funpow_invoke [simp]:
  "calls ((invoke C p ^^ n) s) = calls s @ replicate n p"
  "IsOpenFlag ((invoke C p ^^ n) s) = IsOpenFlag s"
  "IsStartedFlag ((invoke C p ^^ n) s) = IsStartedFlag s"
  "SaveResultsFlag ((invoke C p ^^ n) s) = SaveResultsFlag s"
  "DoRunoff ((invoke C p ^^ n) s) = DoRunoff s"
  "DoRouting ((invoke C p ^^ n) s) = DoRouting s"
  by (induction n; simp add: replicate_append_same)+

lemma runoff_loop_result:
  assumes "runoff_loop C nxt s = Some r"
  shows "\<exists>n. final r = ((invoke C runoff_execute) ^^ n) s \<and>
             (\<forall>k<n. NewRunoffTime (glob ((invoke C runoff_execute ^^ k) s)) < nxt) \<and>
             (\<forall>k. 0 < k \<and> k < n \<longrightarrow>
                  ErrorCode (glob ((invoke C runoff_execute ^^ k) s)) = ERR_NONE) \<and>
             (case r of Continue s' \<Rightarrow> nxt \<le> NewRunoffTime (glob s') \<and>
                          (0 < n \<longrightarrow> ErrorCode (glob s') = ERR_NONE)
                      | Returned s' \<Rightarrow> 0 < n \<and> ErrorCode (glob s') \<noteq> ERR_NONE)"
    (is "?P C nxt s r")
proof (rule runoff_loop.raw_induct [where P = ?P, OF _ assms])
  fix loop :: "'a collab \<Rightarrow> real \<Rightarrow> 'a sim \<Rightarrow> 'a sim outcome option" and C nxt s r
  assume IH: "\<And>C nxt s r. loop C nxt s = Some r \<Longrightarrow> ?P C nxt s r"
  assume body: "(if NewRunoffTime (glob s) < nxt
      then if ErrorCode (glob (invoke C runoff_execute s)) \<noteq> ERR_NONE
           then Some (Returned (invoke C runoff_execute s))
           else loop C nxt (invoke C runoff_execute s)
      else Some (Continue s)) = Some r"
  let ?f = "invoke C runoff_execute"
  show "?P C nxt s r"
  proof (cases "NewRunoffTime (glob s) < nxt")
    case False
    with body have "r = Continue s" by simp
    with False show ?thesis by (intro exI [of _ 0]) simp
  next
    case lt: True
    show ?thesis
    proof (cases "ErrorCode (glob (?f s)) \<noteq> ERR_NONE")
      case True
      with lt body have "r = Returned (?f s)" by simp
      with True lt show ?thesis by (intro exI [of _ 1]) simp
    next
      case False
      then have ok: "ErrorCode (glob (?f s)) = ERR_NONE" by simp
      from False lt body have "loop C nxt (?f s) = Some r" by simp
      from IH [OF this] obtain n where
        n: "final r = (?f ^^ n) (?f s)"
          "\<forall>k<n. NewRunoffTime (glob ((?f ^^ k) (?f s))) < nxt"
          "\<forall>k. 0 < k \<and> k < n \<longrightarrow> ErrorCode (glob ((?f ^^ k) (?f s))) = ERR_NONE"
          "(case r of Continue s' \<Rightarrow> nxt \<le> NewRunoffTime (glob s') \<and>
                          (0 < n \<longrightarrow> ErrorCode (glob s') = ERR_NONE)
                      | Returned s' \<Rightarrow> 0 < n \<and> ErrorCode (glob s') \<noteq> ERR_NONE)" by blast
      have before: "NewRunoffTime (glob ((?f ^^ k) s)) < nxt" if "k < Suc n" for k
      proof (cases k)
        case 0
        with lt show ?thesis by simp
      next
        case (Suc j)
        with that n(2) show ?thesis by (simp add: funpow_swap1)
      qed
      have clean: "ErrorCode (glob ((?f ^^ k) s)) = ERR_NONE" if "0 < k" "k < Suc n" for k
      proof (cases k)
        case 0
        with that show ?thesis by simp
      next
        case (Suc j)
        show ?thesis
        proof (cases "j = 0")
          case True
          with Suc ok show ?thesis by simp
        next
          case False
          with Suc that n(3) show ?thesis by (simp add: funpow_swap1)
        qed
      qed
      have last: "ErrorCode (glob s') = ERR_NONE" if "r = Continue s'" for s'
      proof (cases "n = 0")
        case True
        with n(1) that ok show ?thesis by simp
      next
        case False
        with n(4) that show ?thesis by simp
      qed
      show ?thesis
      proof (intro exI [of _ "Suc n"] conjI allI impI)
        show "final r = (?f ^^ Suc n) s"
          using n(1) by (simp add: funpow_swap1)
        show "NewRunoffTime (glob ((?f ^^ k) s)) < nxt" if "k < Suc n" for k
          using before that .
        show "ErrorCode (glob ((?f ^^ k) s)) = ERR_NONE" if "0 < k \<and> k < Suc n" for k
          using clean that by blast
        show "case r of Returned s' \<Rightarrow> 0 < Suc n \<and> ErrorCode (glob s') \<noteq> ERR_NONE
              | Continue s' \<Rightarrow> nxt \<le> NewRunoffTime (glob s') \<and>
                          (0 < Suc n \<longrightarrow> ErrorCode (glob s') = ERR_NONE)"
          using n(4) last by (cases r) simp_all
      qed
    qed
  qed
qed

text \<open>
  The loop ends when every error-free \<^verbatim>\<open>runoff_execute\<close> advances the runoff clock by
  at least some fixed positive amount.
\<close>

lemma runoff_loop_terminates:
  assumes d: "0 < d"
    and progress: "\<And>g. ErrorCode (extern C runoff_execute g) = ERR_NONE \<Longrightarrow>
                 NewRunoffTime g + d \<le> NewRunoffTime (extern C runoff_execute g)"
  shows "\<exists>r. runoff_loop C nxt s = Some r"
proof (induction "nat \<lceil>(nxt - NewRunoffTime (glob s)) / d\<rceil>" arbitrary: s rule: less_induct)
  case less
  show ?case
  proof (cases "NewRunoffTime (glob s) < nxt")
    case False
    then show ?thesis by (simp add: runoff_loop_unfold)
  next
    case lt: True
    show ?thesis
    proof (cases "ErrorCode (extern C runoff_execute (glob s)) = ERR_NONE")
      case False
      with lt show ?thesis by (simp add: runoff_loop_unfold)
    next
      case True
      let ?s' = "invoke C runoff_execute s"
      have adv: "NewRunoffTime (glob s) + d \<le> NewRunoffTime (glob ?s')"
        using progress [OF True] by simp
      have "(nxt - NewRunoffTime (glob ?s')) / d \<le> (nxt - NewRunoffTime (glob s) - d) / d"
        using adv d by (intro divide_right_mono) simp_all
      also have "\<dots> = (nxt - NewRunoffTime (glob s)) / d - 1"
        using d by (simp add: diff_divide_distrib)
      finally have "(nxt - NewRunoffTime (glob ?s')) / d \<le> (nxt - NewRunoffTime (glob s)) / d - 1" .
      then have "\<lceil>(nxt - NewRunoffTime (glob ?s')) / d\<rceil> \<le> \<lceil>(nxt - NewRunoffTime (glob s)) / d\<rceil> - 1"
        by (metis ceiling_diff_one ceiling_mono)
      moreover have "0 < \<lceil>(nxt - NewRunoffTime (glob s)) / d\<rceil>"
        using lt d by (simp add: ceiling_less_iff)
      ultimately have "nat \<lceil>(nxt - NewRunoffTime (glob ?s')) / d\<rceil>
                     < nat \<lceil>(nxt - NewRunoffTime (glob s)) / d\<rceil>"
        by linarith
      from less [OF this] obtain r where "runoff_loop C nxt ?s' = Some r" by blast
      with lt True show ?thesis by (simp add: runoff_loop_unfold)
    qed
  qed
qed

lemma execRouting_valid:
  assumes "0 < fst (candidateStep C (countStep s))"
  shows "execRouting C e s =
     (if DoRunoff s then
        (case runoff_loop C (nextRoutingTime_at C s) (atRunoff C s) of
           None \<Rightarrow> None
         | Some (Returned s2) \<Rightarrow> Some s2
         | Some (Continue s2) \<Rightarrow> Some (route C (routingStep_at C s) (nextRoutingTime_at C s) s2))
      else
        Some (route C (routingStep_at C s) (nextRoutingTime_at C s)
                (invoke C (climate_setState
                    (getDateTime C (glob (atRunoff C s)) (NewRoutingTime (glob (atRunoff C s)))))
                  (atRunoff C s))))"
  using assms
  by (auto simp: execRouting_def split_beta atRunoff_def routingStep_at_def nextRoutingTime_at_def
      split: option.splits outcome.splits)

lemma execRouting_returns:
  assumes "\<not> DoRunoff s \<or> runoff_progress C"
  shows "\<exists>s'. execRouting C e s = Some s'"
proof (cases "fst (candidateStep C (countStep s)) \<le> 0")
  case True
  then show ?thesis by (simp add: execRouting_invalid)
next
  case False
  then have pos: "0 < fst (candidateStep C (countStep s))" by simp
  show ?thesis
  proof (cases "DoRunoff s")
    case False
    with pos show ?thesis by (simp add: execRouting_valid)
  next
    case True
    with assms have "runoff_progress C" by simp
    then obtain d where "0 < d"
      and "\<And>g. ErrorCode (extern C runoff_execute g) = ERR_NONE \<Longrightarrow>
               NewRunoffTime g + d \<le> NewRunoffTime (extern C runoff_execute g)"
      unfolding runoff_progress_def by blast
    from runoff_loop_terminates [OF this]
    obtain r where "runoff_loop C (nextRoutingTime_at C s) (atRunoff C s) = Some r" by blast
    then show ?thesis
      using pos True by (cases r) (simp_all add: execRouting_valid)
  qed
qed

lemma swmm_step_returns:
  assumes "\<not> DoRunoff s \<or> runoff_progress C"
  shows "\<exists>rc t s'. swmm_step C e s = Some (rc, t, s')"
proof -
  from execRouting_returns [OF assms] obtain s1 where "execRouting C e s = Some s1" by blast
  then show ?thesis by (simp add: swmm_step_def Let_def)
qed

section \<open>The elapsed time stored by a step\<close>

lemma swmm_step_started:
  assumes "ErrorCode (glob s) = ERR_NONE" "IsOpenFlag s" "IsStartedFlag s"
    and "swmm_step C e s = Some (rc, t, s')"
  obtains s1 where
    "if NewRoutingTime (glob s) < TotalDuration (glob s)
     then execRouting C e s = Some s1 else s1 = s"
    and "s' = saveAtReportTime C s1"
    and "rc = ErrorCode (glob s')"
    and "t = elapsedDays (glob s')"
  using assms
  by (auto simp: swmm_step_def Let_def split: if_splits option.splits)

lemma swmm_step_finished:
  assumes "ErrorCode (glob s) = ERR_NONE" "IsOpenFlag s" "IsStartedFlag s"
    and "TotalDuration (glob s) \<le> NewRoutingTime (glob s)"
  shows "swmm_step C e s =
           Some (ErrorCode (glob (saveAtReportTime C s)),
                 elapsedDays (glob (saveAtReportTime C s)), saveAtReportTime C s)"
  using assms by (simp add: swmm_step_def Let_def)

text \<open>
  C1: a \<^verbatim>\<open>swmm_step\<close> on a started run with no error set stores in \<^verbatim>\<open>*elapsedTime\<close>
  the routing clock in days (\<open>NewRoutingTime / MSECperDAY\<close>) while the clock is below
  \<open>TotalDuration\<close>, and exactly 0 once it is not. When the clock has reached
  \<open>TotalDuration\<close> before the call (the output module writing only to its own state),
  the call returns with 0 stored, makes no runoff, climate or routing call, leaves
  \<open>StepCount\<close>, \<open>NewRoutingTime\<close> and \<open>NewRunoffTime\<close> as they were, and leaves the run in
  the same finished condition, so the next call does the same. And the call does
  return, with that value stored, when runoff is inactive or every error-free
  \<^verbatim>\<open>runoff_execute\<close> advances the runoff clock by at least a fixed positive time.
\<close>

theorem swmm_step_elapsedTime:
  assumes "ErrorCode (glob s) = ERR_NONE" and "IsOpenFlag s" and "IsStartedFlag s"
  shows "(\<forall>rc t s'. swmm_step C e s = Some (rc, t, s') \<longrightarrow>
            (NewRoutingTime (glob s') < TotalDuration (glob s') \<longrightarrow>
               t = NewRoutingTime (glob s') / MSECperDAY) \<and>
            (TotalDuration (glob s') \<le> NewRoutingTime (glob s') \<longrightarrow> t = 0)) \<and>
         (saveResults_frame C \<and> TotalDuration (glob s) \<le> NewRoutingTime (glob s) \<longrightarrow>
            (\<exists>s'. swmm_step C e s = Some (ERR_NONE, 0, s') \<and>
                   StepCount (glob s') = StepCount (glob s) \<and>
                   NewRoutingTime (glob s') = NewRoutingTime (glob s) \<and>
                   NewRunoffTime (glob s') = NewRunoffTime (glob s) \<and>
                   filter advances (calls s') = filter advances (calls s) \<and>
                   ErrorCode (glob s') = ERR_NONE \<and> IsOpenFlag s' \<and> IsStartedFlag s' \<and>
                   TotalDuration (glob s') \<le> NewRoutingTime (glob s'))) \<and>
         (\<not> DoRunoff s \<or> runoff_progress C \<longrightarrow>
            (\<exists>rc t s'. swmm_step C e s = Some (rc, t, s') \<and>
               (NewRoutingTime (glob s') < TotalDuration (glob s') \<longrightarrow>
                  t = NewRoutingTime (glob s') / MSECperDAY) \<and>
               (TotalDuration (glob s') \<le> NewRoutingTime (glob s') \<longrightarrow> t = 0)))"
proof (intro conjI allI impI)
  fix rc t s'
  assume "swmm_step C e s = Some (rc, t, s')"
  from swmm_step_started [OF assms this]
  have t: "t = elapsedDays (glob s')" by metis
  {
    assume "NewRoutingTime (glob s') < TotalDuration (glob s')"
    with t show "t = NewRoutingTime (glob s') / MSECperDAY" by (simp add: elapsedDays_def)
  }
  {
    assume "TotalDuration (glob s') \<le> NewRoutingTime (glob s')"
    with t show "t = 0" by (simp add: elapsedDays_def)
  }
next
  assume h: "saveResults_frame C \<and> TotalDuration (glob s) \<le> NewRoutingTime (glob s)"
  then have fr: "saveResults_frame C" and fin: "TotalDuration (glob s) \<le> NewRoutingTime (glob s)"
    by simp_all
  let ?s' = "saveAtReportTime C s"
  note keep = saveAtReportTime_keeps [OF fr, of s]
  have "swmm_step C e s = Some (ERR_NONE, 0, ?s')"
    using swmm_step_finished [OF assms fin, of C e] keep assms(1) fin
    by (simp add: elapsedDays_def)
  then show "\<exists>s'. swmm_step C e s = Some (ERR_NONE, 0, s') \<and>
                   StepCount (glob s') = StepCount (glob s) \<and>
                   NewRoutingTime (glob s') = NewRoutingTime (glob s) \<and>
                   NewRunoffTime (glob s') = NewRunoffTime (glob s) \<and>
                   filter advances (calls s') = filter advances (calls s) \<and>
                   ErrorCode (glob s') = ERR_NONE \<and> IsOpenFlag s' \<and> IsStartedFlag s' \<and>
                   TotalDuration (glob s') \<le> NewRoutingTime (glob s')"
    using keep assms fin by (intro exI [of _ ?s']) simp
next
  assume "\<not> DoRunoff s \<or> runoff_progress C"
  from swmm_step_returns [OF this] obtain rc t s' where
    step: "swmm_step C e s = Some (rc, t, s')" by blast
  from swmm_step_started [OF assms step]
  have t: "t = elapsedDays (glob s')" by metis
  show "\<exists>rc t s'. swmm_step C e s = Some (rc, t, s') \<and>
               (NewRoutingTime (glob s') < TotalDuration (glob s') \<longrightarrow>
                  t = NewRoutingTime (glob s') / MSECperDAY) \<and>
               (TotalDuration (glob s') \<le> NewRoutingTime (glob s') \<longrightarrow> t = 0)"
    using step t by (intro exI [of _ rc] exI [of _ t] exI [of _ s']) (simp add: elapsedDays_def)
qed

text \<open>
  Two concrete calls: the first step of the sample run stores 20000 ms as 1/4320 day;
  a step on the run with the routing clock at the total duration stores 0 and leaves the
  step count at 180.
\<close>

theorem swmm_step_elapsedTime_witness:
  "ErrorCode (glob demo_sim) = ERR_NONE \<and> IsOpenFlag demo_sim \<and> IsStartedFlag demo_sim \<and>
   (\<exists>rc t s'. swmm_step demo 0 demo_sim = Some (rc, t, s')) \<and>
   fst (snd (the (swmm_step demo 0 demo_sim))) = 20000 / MSECperDAY \<and>
   saveResults_frame demo \<and>
   fst (snd (the (swmm_step demo (1/24)
     (demo_sim\<lparr>glob := demo_globals\<lparr>NewRoutingTime := 3600000, NewRunoffTime := 3600000,
                                    ReportTime := 4500000, StepCount := 180\<rparr>\<rparr>)))) = 0 \<and>
   StepCount (glob (snd (snd (the (swmm_step demo (1/24)
     (demo_sim\<lparr>glob := demo_globals\<lparr>NewRoutingTime := 3600000, NewRunoffTime := 3600000,
                                    ReportTime := 4500000, StepCount := 180\<rparr>\<rparr>)))))) = 180"
proof -
  let ?f = "demo_sim\<lparr>glob := demo_globals\<lparr>NewRoutingTime := 3600000, NewRunoffTime := 3600000,
                                    ReportTime := 4500000, StepCount := 180\<rparr>\<rparr>"
  have a: "ErrorCode (glob demo_sim) = ERR_NONE" "IsOpenFlag demo_sim" "IsStartedFlag demo_sim"
    by (simp_all add: demo_defs)
  have b: "ErrorCode (glob ?f) = ERR_NONE" "IsOpenFlag ?f" "IsStartedFlag ?f"
    "TotalDuration (glob ?f) \<le> NewRoutingTime (glob ?f)" "StepCount (glob ?f) = 180"
    by (simp_all add: demo_defs)
  have first: "swmm_step demo 0 demo_sim =
      Some (ERR_NONE, 1 / 4320,
        demo_sim\<lparr>glob := demo_globals\<lparr>NewRunoffTime := 300000, NewRoutingTime := 20000,
                                       StepCount := 1\<rparr>,
                 calls := [routing_getRoutingStep 0 20, runoff_execute, routing_execute 0 20]\<rparr>)"
    by (simp add: swmm_step_def execRouting_def candidateStep_def adjustStep_def route_def
        saveAtReportTime_def elapsedDays_def invoke_def invoke_getRoutingStep_def
        MSECperDAY_def countStep_def demo_defs runoff_loop_unfold)
  let ?s1 = "demo_sim\<lparr>glob := demo_globals\<lparr>NewRunoffTime := 300000, NewRoutingTime := 20000,
                                       StepCount := 1\<rparr>,
                 calls := [routing_getRoutingStep 0 20, runoff_execute, routing_execute 0 20]\<rparr>"
  have c: "NewRoutingTime (glob ?s1) < TotalDuration (glob ?s1)" "NewRoutingTime (glob ?s1) = 20000"
    by (simp_all add: demo_defs)
  note thm1 = swmm_step_elapsedTime [OF a, of demo 0]
  from thm1
  have "\<forall>rc t s'. swmm_step demo 0 demo_sim = Some (rc, t, s') \<longrightarrow>
            (NewRoutingTime (glob s') < TotalDuration (glob s') \<longrightarrow>
               t = NewRoutingTime (glob s') / MSECperDAY) \<and>
            (TotalDuration (glob s') \<le> NewRoutingTime (glob s') \<longrightarrow> t = 0)"
    by (rule conjunct1)
  with first c(1) have "1 / 4320 = NewRoutingTime (glob ?s1) / MSECperDAY"
    by blast
  then have A: "fst (snd (the (swmm_step demo 0 demo_sim))) = 20000 / MSECperDAY"
    unfolding first c(2) by simp
  from thm1 demo_runoff_progress
  have B: "\<exists>rc t s'. swmm_step demo 0 demo_sim = Some (rc, t, s')" by blast
  from swmm_step_elapsedTime [OF b(1-3), of demo "1/24"] b(4,5) demo_frames(1)
  have C: "fst (snd (the (swmm_step demo (1/24) ?f))) = 0 \<and>
        StepCount (glob (snd (snd (the (swmm_step demo (1/24) ?f))))) = 180"
    by auto
  from A B C show ?thesis using a demo_frames(1) by simp
qed

section \<open>The sticky error code\<close>

lemma swmm_open_calls:
  "take (length (calls s) + 2) (calls (snd (swmm_open C f1 f2 f3 s)))
     = calls s @ [datetime_setDateFormat, project_open f1 f2 f3]"
  by (simp add: swmm_open_def Let_def)

lemma swmm_open_statics:
  "\<not> IsStartedFlag (snd (swmm_open C f1 f2 f3 s))"
  "ExceptionCount (snd (swmm_open C f1 f2 f3 s)) = 0"
  by (simp_all add: swmm_open_def Let_def)

lemma swmm_open_loader:
  fixes C :: "'w collab"
  defines "g0 \<equiv> \<lambda>s :: 'w sim. (extern C datetime_setDateFormat (glob s))
                      \<lparr>ErrorCode := ERR_NONE, WarningCode := 0\<rparr>"
  shows "ErrorCode (extern C (project_open f1 f2 f3) (g0 s)) \<noteq> ERR_NONE \<Longrightarrow>
           swmm_open C f1 f2 f3 s =
             (ErrorCode (extern C (project_open f1 f2 f3) (g0 s)),
              s\<lparr>IsOpenFlag := False, IsStartedFlag := False, ExceptionCount := 0,
                glob := extern C (project_open f1 f2 f3) (g0 s),
                calls := calls s @ [datetime_setDateFormat, project_open f1 f2 f3]\<rparr>)"
    and "ErrorCode (extern C (project_open f1 f2 f3) (g0 s)) = ERR_NONE \<Longrightarrow>
           IsOpenFlag (snd (swmm_open C f1 f2 f3 s))"
  by (simp_all add: swmm_open_def Let_def g0_def invoke_def)

lemma swmm_open_codes:
  assumes "\<And>p g. open_proc p \<Longrightarrow>
             ErrorCode (extern C p g) = ErrorCode g \<and> WarningCode (extern C p g) = WarningCode g"
  shows "fst (swmm_open C f1 f2 f3 s) = ERR_NONE"
    and "ErrorCode (glob (snd (swmm_open C f1 f2 f3 s))) = ERR_NONE"
    and "WarningCode (glob (snd (swmm_open C f1 f2 f3 s))) = 0"
    and "IsOpenFlag (snd (swmm_open C f1 f2 f3 s))"
  by (simp_all add: swmm_open_def Let_def assms)

lemma swmm_open_fresh:
  assumes "\<And>g c w. extern C datetime_setDateFormat (g\<lparr>ErrorCode := c, WarningCode := w\<rparr>)
             = (extern C datetime_setDateFormat g)\<lparr>ErrorCode := c, WarningCode := w\<rparr>"
  shows "swmm_open C f1 f2 f3 s =
           swmm_open C f1 f2 f3
             (s\<lparr>IsOpenFlag := False, IsStartedFlag := False, ExceptionCount := 0,
                glob := (glob s)\<lparr>ErrorCode := ERR_NONE, WarningCode := 0\<rparr>\<rparr>)"
  by (simp add: swmm_open_def Let_def invoke_def assms)

text \<open>
  C6, as the code has it: with an error code set, \<^verbatim>\<open>swmm_start\<close> and \<^verbatim>\<open>swmm_step\<close>
  return that code and leave the state (and \<^verbatim>\<open>*elapsedTime\<close>) as it is.
  \<^verbatim>\<open>swmm_open\<close> has no such guard. Whatever the error code, it calls
  \<^verbatim>\<open>datetime_setDateFormat\<close>, sets the error code to none, the warning code to 0, both
  phase flags to false and the exception count to 0, and calls \<^verbatim>\<open>project_open\<close> on
  that state: if the loader reports an error, that error and that state are the
  result, and if not, the open flag is set. The started flag and the exception count
  are clear in every result. With a loader that writes neither code the call
  returns none, with the error code none, the warning code 0 and the open flag set.
  And when \<^verbatim>\<open>datetime_setDateFormat\<close> neither reads nor writes the two codes, the call
  does exactly what it does on an engine with no error, no warning and both flags clear.
\<close>

theorem sticky_error_short_circuit:
  assumes "ErrorCode (glob s) \<noteq> ERR_NONE"
  shows "swmm_start C saveResults s = (ErrorCode (glob s), s) \<and>
         swmm_step C e s = Some (ErrorCode (glob s), e, s) \<and>
         take (length (calls s) + 2) (calls (snd (swmm_open C f1 f2 f3 s)))
           = calls s @ [datetime_setDateFormat, project_open f1 f2 f3] \<and>
         \<not> IsStartedFlag (snd (swmm_open C f1 f2 f3 s)) \<and>
         ExceptionCount (snd (swmm_open C f1 f2 f3 s)) = 0 \<and>
         (ErrorCode (extern C (project_open f1 f2 f3)
                      ((extern C datetime_setDateFormat (glob s))
                         \<lparr>ErrorCode := ERR_NONE, WarningCode := 0\<rparr>)) \<noteq> ERR_NONE \<longrightarrow>
            swmm_open C f1 f2 f3 s =
              (ErrorCode (extern C (project_open f1 f2 f3)
                           ((extern C datetime_setDateFormat (glob s))
                              \<lparr>ErrorCode := ERR_NONE, WarningCode := 0\<rparr>)),
               s\<lparr>IsOpenFlag := False, IsStartedFlag := False, ExceptionCount := 0,
                 glob := extern C (project_open f1 f2 f3)
                           ((extern C datetime_setDateFormat (glob s))
                              \<lparr>ErrorCode := ERR_NONE, WarningCode := 0\<rparr>),
                 calls := calls s @ [datetime_setDateFormat, project_open f1 f2 f3]\<rparr>)) \<and>
         (ErrorCode (extern C (project_open f1 f2 f3)
                      ((extern C datetime_setDateFormat (glob s))
                         \<lparr>ErrorCode := ERR_NONE, WarningCode := 0\<rparr>)) = ERR_NONE \<longrightarrow>
            IsOpenFlag (snd (swmm_open C f1 f2 f3 s))) \<and>
         ((\<forall>p g. open_proc p \<longrightarrow>
              ErrorCode (extern C p g) = ErrorCode g \<and>
              WarningCode (extern C p g) = WarningCode g) \<longrightarrow>
            fst (swmm_open C f1 f2 f3 s) = ERR_NONE \<and>
            ErrorCode (glob (snd (swmm_open C f1 f2 f3 s))) = ERR_NONE \<and>
            WarningCode (glob (snd (swmm_open C f1 f2 f3 s))) = 0 \<and>
            IsOpenFlag (snd (swmm_open C f1 f2 f3 s))) \<and>
         ((\<forall>g c w. extern C datetime_setDateFormat (g\<lparr>ErrorCode := c, WarningCode := w\<rparr>)
                    = (extern C datetime_setDateFormat g)\<lparr>ErrorCode := c, WarningCode := w\<rparr>) \<longrightarrow>
            swmm_open C f1 f2 f3 s =
              swmm_open C f1 f2 f3
                (s\<lparr>IsOpenFlag := False, IsStartedFlag := False, ExceptionCount := 0,
                   glob := (glob s)\<lparr>ErrorCode := ERR_NONE, WarningCode := 0\<rparr>\<rparr>))"
proof (intro conjI impI)
  show "swmm_start C saveResults s = (ErrorCode (glob s), s)"
    using assms by (simp add: swmm_start_def)
  show "swmm_step C e s = Some (ErrorCode (glob s), e, s)"
    using assms by (simp add: swmm_step_def)
  show "take (length (calls s) + 2) (calls (snd (swmm_open C f1 f2 f3 s)))
           = calls s @ [datetime_setDateFormat, project_open f1 f2 f3]"
    by (rule swmm_open_calls)
  show "\<not> IsStartedFlag (snd (swmm_open C f1 f2 f3 s))"
    and "ExceptionCount (snd (swmm_open C f1 f2 f3 s)) = 0"
    by (rule swmm_open_statics)+
next
  assume "ErrorCode (extern C (project_open f1 f2 f3)
                      ((extern C datetime_setDateFormat (glob s))
                         \<lparr>ErrorCode := ERR_NONE, WarningCode := 0\<rparr>)) \<noteq> ERR_NONE"
  then show "swmm_open C f1 f2 f3 s =
              (ErrorCode (extern C (project_open f1 f2 f3)
                           ((extern C datetime_setDateFormat (glob s))
                              \<lparr>ErrorCode := ERR_NONE, WarningCode := 0\<rparr>)),
               s\<lparr>IsOpenFlag := False, IsStartedFlag := False, ExceptionCount := 0,
                 glob := extern C (project_open f1 f2 f3)
                           ((extern C datetime_setDateFormat (glob s))
                              \<lparr>ErrorCode := ERR_NONE, WarningCode := 0\<rparr>),
                 calls := calls s @ [datetime_setDateFormat, project_open f1 f2 f3]\<rparr>)"
    by (rule swmm_open_loader(1))
next
  assume "ErrorCode (extern C (project_open f1 f2 f3)
                      ((extern C datetime_setDateFormat (glob s))
                         \<lparr>ErrorCode := ERR_NONE, WarningCode := 0\<rparr>)) = ERR_NONE"
  then show "IsOpenFlag (snd (swmm_open C f1 f2 f3 s))"
    by (rule swmm_open_loader(2))
next
  assume h: "\<forall>p g. open_proc p \<longrightarrow>
              ErrorCode (extern C p g) = ErrorCode g \<and>
              WarningCode (extern C p g) = WarningCode g"
  then have h': "\<And>p g. open_proc p \<Longrightarrow>
             ErrorCode (extern C p g) = ErrorCode g \<and> WarningCode (extern C p g) = WarningCode g"
    by blast
  show "fst (swmm_open C f1 f2 f3 s) = ERR_NONE"
    and "ErrorCode (glob (snd (swmm_open C f1 f2 f3 s))) = ERR_NONE"
    and "WarningCode (glob (snd (swmm_open C f1 f2 f3 s))) = 0"
    and "IsOpenFlag (snd (swmm_open C f1 f2 f3 s))"
    using swmm_open_codes [of C, OF h'] by blast+
next
  assume "\<forall>g c w. extern C datetime_setDateFormat (g\<lparr>ErrorCode := c, WarningCode := w\<rparr>)
                    = (extern C datetime_setDateFormat g)\<lparr>ErrorCode := c, WarningCode := w\<rparr>"
  then show "swmm_open C f1 f2 f3 s =
              swmm_open C f1 f2 f3
                (s\<lparr>IsOpenFlag := False, IsStartedFlag := False, ExceptionCount := 0,
                   glob := (glob s)\<lparr>ErrorCode := ERR_NONE, WarningCode := 0\<rparr>\<rparr>)"
    by (intro swmm_open_fresh) blast
qed

lemma demo_open_codes:
  "open_proc p \<Longrightarrow> ErrorCode (extern demo p g) = ErrorCode g \<and>
                     WarningCode (extern demo p g) = WarningCode g"
  by (cases p) (simp_all add: demo_def demo_extern_def)

theorem sticky_error_short_circuit_witness:
  "ErrorCode (glob (demo_sim\<lparr>glob := demo_globals\<lparr>ErrorCode := ERR_TIMESTEP\<rparr>\<rparr>)) \<noteq> ERR_NONE \<and>
   swmm_start demo 1 (demo_sim\<lparr>glob := demo_globals\<lparr>ErrorCode := ERR_TIMESTEP\<rparr>\<rparr>)
     = (ERR_TIMESTEP, demo_sim\<lparr>glob := demo_globals\<lparr>ErrorCode := ERR_TIMESTEP\<rparr>\<rparr>) \<and>
   swmm_step demo (1/2) (demo_sim\<lparr>glob := demo_globals\<lparr>ErrorCode := ERR_TIMESTEP\<rparr>\<rparr>)
     = Some (ERR_TIMESTEP, 1/2, demo_sim\<lparr>glob := demo_globals\<lparr>ErrorCode := ERR_TIMESTEP\<rparr>\<rparr>) \<and>
   fst (swmm_open demo ''in'' ''rpt'' ''out''
          (demo_sim\<lparr>glob := demo_globals\<lparr>ErrorCode := ERR_TIMESTEP\<rparr>\<rparr>)) = ERR_NONE \<and>
   ErrorCode (glob (snd (swmm_open demo ''in'' ''rpt'' ''out''
          (demo_sim\<lparr>glob := demo_globals\<lparr>ErrorCode := ERR_TIMESTEP\<rparr>\<rparr>)))) = ERR_NONE \<and>
   \<not> IsStartedFlag (snd (swmm_open demo ''in'' ''rpt'' ''out''
          (demo_sim\<lparr>glob := demo_globals\<lparr>ErrorCode := ERR_TIMESTEP\<rparr>\<rparr>)))"
proof -
  let ?s = "demo_sim\<lparr>glob := demo_globals\<lparr>ErrorCode := ERR_TIMESTEP\<rparr>\<rparr>"
  have h: "ErrorCode (glob ?s) \<noteq> ERR_NONE" by simp
  have c: "ErrorCode (glob ?s) = ERR_TIMESTEP" by simp
  have n: "\<forall>p g. open_proc p \<longrightarrow>
              ErrorCode (extern demo p g) = ErrorCode g \<and>
              WarningCode (extern demo p g) = WarningCode g"
    using demo_open_codes by blast
  from sticky_error_short_circuit
         [OF h, where C = demo and saveResults = 1 and e = "1/2"
            and ?f1.0 = "''in''" and ?f2.0 = "''rpt''" and ?f3.0 = "''out''"] n h
  show ?thesis unfolding c by blast
qed

text \<open>
  The claim C6 as it is worded fails for \<^verbatim>\<open>swmm_open\<close>: on a closed engine whose error
  code is still \<open>ERR_SYSTEM\<close>, opening a project returns \<open>ERR_NONE\<close>, clears the error code
  and sets the open flag.
\<close>

theorem swmm_open_resets_error_counterexample:
  "ErrorCode (glob (demo_sim\<lparr>IsOpenFlag := False, IsStartedFlag := False,
                              glob := demo_globals\<lparr>ErrorCode := ERR_SYSTEM\<rparr>\<rparr>)) = ERR_SYSTEM \<and>
   fst (swmm_open demo ''in'' ''rpt'' ''out''
          (demo_sim\<lparr>IsOpenFlag := False, IsStartedFlag := False,
                     glob := demo_globals\<lparr>ErrorCode := ERR_SYSTEM\<rparr>\<rparr>)) = ERR_NONE \<and>
   ErrorCode (glob (snd (swmm_open demo ''in'' ''rpt'' ''out''
          (demo_sim\<lparr>IsOpenFlag := False, IsStartedFlag := False,
                     glob := demo_globals\<lparr>ErrorCode := ERR_SYSTEM\<rparr>\<rparr>)))) = ERR_NONE \<and>
   IsOpenFlag (snd (swmm_open demo ''in'' ''rpt'' ''out''
          (demo_sim\<lparr>IsOpenFlag := False, IsStartedFlag := False,
                     glob := demo_globals\<lparr>ErrorCode := ERR_SYSTEM\<rparr>\<rparr>)))"
  by (simp add: swmm_open_def Let_def invoke_def demo_defs)

section \<open>Calls out of order\<close>

lemma out_of_order_returns_ErrorCode:
  "\<not> IsOpenFlag s \<or> IsStartedFlag s \<Longrightarrow> ErrorCode (glob s) = ERR_NONE \<Longrightarrow>
     fst (swmm_start C sv s) = ErrorCode (glob (snd (swmm_start C sv s)))"
  by (simp add: swmm_start_def Let_def)

text \<open>
  C7, as the code has it: a call out of order with no error code set (\<^verbatim>\<open>swmm_start\<close>
  when not open or already started, \<^verbatim>\<open>swmm_step\<close> when not open or not started,
  \<^verbatim>\<open>swmm_end\<close> when not open) does one thing, it calls
  \<^verbatim>\<open>report_writeErrorMsg(ERR_NOT_OPEN, "")\<close>, and returns \<^verbatim>\<open>ErrorCode\<close>. That function
  recording its code, the call returns \<open>ERR_NOT_OPEN\<close> and the new state is the old one
  with \<open>ErrorCode = ERR_NOT_OPEN\<close> (now sticky) and the reporter's own effect: the flags,
  \<open>NewRunoffTime\<close>, \<open>NewRoutingTime\<close> and \<open>ReportTime\<close> are untouched, and \<^verbatim>\<open>swmm_step\<close>
  does not store to \<^verbatim>\<open>*elapsedTime\<close>.
\<close>

theorem out_of_order_rejected:
  assumes "ErrorCode (glob s) = ERR_NONE" and "writeErrorMsg_sets_code C"
  shows "(\<not> IsOpenFlag s \<or> IsStartedFlag s \<longrightarrow>
            swmm_start C sv s = (ERR_NOT_OPEN, invoke C (report_writeErrorMsg ERR_NOT_OPEN []) s)) \<and>
         (\<not> IsOpenFlag s \<or> \<not> IsStartedFlag s \<longrightarrow>
            swmm_step C e s = Some (ERR_NOT_OPEN, e, invoke C (report_writeErrorMsg ERR_NOT_OPEN []) s)) \<and>
         (\<not> IsOpenFlag s \<longrightarrow>
            swmm_end C s = (ERR_NOT_OPEN, invoke C (report_writeErrorMsg ERR_NOT_OPEN []) s)) \<and>
         invoke C (report_writeErrorMsg ERR_NOT_OPEN []) s =
           s\<lparr>glob := (glob s)\<lparr>world := world (extern C (report_writeErrorMsg ERR_NOT_OPEN []) (glob s)),
                               ErrorCode := ERR_NOT_OPEN\<rparr>,
             calls := calls s @ [report_writeErrorMsg ERR_NOT_OPEN []]\<rparr>"
proof -
  have eq: "extern C (report_writeErrorMsg ERR_NOT_OPEN []) (glob s) =
      (glob s)\<lparr>world := world (extern C (report_writeErrorMsg ERR_NOT_OPEN []) (glob s)),
               ErrorCode := ERR_NOT_OPEN\<rparr>"
    using assms(2) by (simp add: writeErrorMsg_sets_code_def)
  have code: "ErrorCode (extern C (report_writeErrorMsg ERR_NOT_OPEN []) (glob s)) = ERR_NOT_OPEN"
    using arg_cong [OF eq, of ErrorCode] by simp
  have inv: "invoke C (report_writeErrorMsg ERR_NOT_OPEN []) s =
           s\<lparr>glob := (glob s)\<lparr>world := world (extern C (report_writeErrorMsg ERR_NOT_OPEN []) (glob s)),
                               ErrorCode := ERR_NOT_OPEN\<rparr>,
             calls := calls s @ [report_writeErrorMsg ERR_NOT_OPEN []]\<rparr>"
    unfolding invoke_def using eq by simp
  show ?thesis
    using assms(1) code inv
    by (simp add: swmm_start_def swmm_step_def swmm_end_def Let_def)
qed

text \<open>
  A second \<^verbatim>\<open>swmm_start\<close> on the sample run (open and started): it returns
  \<open>ERR_NOT_OPEN\<close>, and the clocks of the run are what they were.
\<close>

theorem out_of_order_rejected_witness:
  "ErrorCode (glob (demo_sim\<lparr>glob := demo_globals\<lparr>NewRoutingTime := 40000, NewRunoffTime := 300000\<rparr>\<rparr>)) = ERR_NONE \<and>
   writeErrorMsg_sets_code demo \<and>
   fst (swmm_start demo 1 (demo_sim\<lparr>glob := demo_globals\<lparr>NewRoutingTime := 40000, NewRunoffTime := 300000\<rparr>\<rparr>)) = ERR_NOT_OPEN \<and>
   NewRoutingTime (glob (snd (swmm_start demo 1
      (demo_sim\<lparr>glob := demo_globals\<lparr>NewRoutingTime := 40000, NewRunoffTime := 300000\<rparr>\<rparr>)))) = 40000 \<and>
   NewRunoffTime (glob (snd (swmm_start demo 1
      (demo_sim\<lparr>glob := demo_globals\<lparr>NewRoutingTime := 40000, NewRunoffTime := 300000\<rparr>\<rparr>)))) = 300000 \<and>
   ReportTime (glob (snd (swmm_start demo 1
      (demo_sim\<lparr>glob := demo_globals\<lparr>NewRoutingTime := 40000, NewRunoffTime := 300000\<rparr>\<rparr>)))) = 900000"
proof -
  let ?s = "demo_sim\<lparr>glob := demo_globals\<lparr>NewRoutingTime := 40000, NewRunoffTime := 300000\<rparr>\<rparr>"
  have h: "ErrorCode (glob ?s) = ERR_NONE" by (simp add: demo_defs)
  have o: "\<not> IsOpenFlag ?s \<or> IsStartedFlag ?s" by (simp add: demo_defs)
  from out_of_order_rejected [OF h demo_frames(6), of 1 0] o
  have "swmm_start demo 1 ?s =
      (ERR_NOT_OPEN,
       ?s\<lparr>glob := (glob ?s)\<lparr>world := world (extern demo (report_writeErrorMsg ERR_NOT_OPEN []) (glob ?s)),
                               ErrorCode := ERR_NOT_OPEN\<rparr>,
           calls := calls ?s @ [report_writeErrorMsg ERR_NOT_OPEN []]\<rparr>)"
    by simp
  then show ?thesis using h demo_frames(6) by (simp add: demo_globals_def)
qed

text \<open>
  The claim C7 as it is worded fails: the second \<^verbatim>\<open>swmm_start\<close> returns \<open>ERR_NOT_OPEN\<close>
  because the error code of the engine, \<open>ERR_NONE\<close> before the call, is \<open>ERR_NOT_OPEN\<close>
  after it: the state is not left as it was.
\<close>

theorem out_of_order_sets_error_counterexample:
  "ErrorCode (glob demo_sim) = ERR_NONE \<and> IsOpenFlag demo_sim \<and> IsStartedFlag demo_sim \<and>
   fst (swmm_start demo 1 demo_sim) = ERR_NOT_OPEN \<and>
   ErrorCode (glob (snd (swmm_start demo 1 demo_sim))) = ERR_NOT_OPEN \<and>
   glob (snd (swmm_start demo 1 demo_sim)) \<noteq> glob demo_sim"
proof -
  have r: "swmm_start demo 1 demo_sim =
     (ERR_NOT_OPEN, demo_sim\<lparr>glob := demo_globals\<lparr>ErrorCode := ERR_NOT_OPEN\<rparr>,
                              calls := [report_writeErrorMsg ERR_NOT_OPEN []]\<rparr>)"
    by (simp add: swmm_start_def Let_def invoke_def demo_defs)
  have "ErrorCode (demo_globals\<lparr>ErrorCode := ERR_NOT_OPEN\<rparr>) \<noteq> ErrorCode demo_globals"
    by (simp add: demo_globals_def)
  then have "demo_globals\<lparr>ErrorCode := ERR_NOT_OPEN\<rparr> \<noteq> demo_globals"
    by (metis)
  then show ?thesis unfolding r by (simp add: demo_sim_def) (simp add: demo_globals_def)
qed

section \<open>Node access by index\<close>

text \<open>
  C10: with a project open, \<^verbatim>\<open>swmm_getNodeData\<close> and \<^verbatim>\<open>swmm_addNodeInflow\<close> use the
  index on the \<^verbatim>\<open>Node\<close> array without comparing it with anything. Neither ever returns
  an error code: a call either stays inside the array and returns \<open>ERR_NONE\<close>, or reads
  or writes outside it, which happens exactly when the index is negative or not below
  the number of nodes. Inside the array the call reads, respectively updates, the
  element at the index. The sibling \<^verbatim>\<open>swmm_getNodeID\<close> does return \<open>ERR_NUMBER\<close> for an
  index at or above \<^verbatim>\<open>Nobjects[NODE]\<close>.
\<close>

theorem node_index_unchecked:
  assumes "IsOpenFlag s"
  shows "(swmm_getNodeData index data s = Fault
            \<longleftrightarrow> \<not> (0 \<le> index \<and> index < int (length (Node (glob s))))) \<and>
         (swmm_addNodeInflow index q s = Fault
            \<longleftrightarrow> \<not> (0 \<le> index \<and> index < int (length (Node (glob s))))) \<and>
         (\<forall>r. swmm_getNodeData index data s = Done r \<longrightarrow>
            fst r = ERR_NONE \<and> nd_inflow (snd r) = inflow (Node (glob s) ! nat index) \<and>
            nd_head (snd r) = invertElev (Node (glob s) ! nat index)
                                + newDepth (Node (glob s) ! nat index)) \<and>
         (\<forall>r. swmm_addNodeInflow index q s = Done r \<longrightarrow>
            fst r = ERR_NONE \<and>
            dllInflow (Node (glob (snd r)) ! nat index)
              = dllInflow (Node (glob s) ! nat index) + q \<and>
            length (Node (glob (snd r))) = length (Node (glob s))) \<and>
         (Nobjects (glob s) NODE \<le> index \<longrightarrow>
            swmm_getNodeID maxline index name s = Done (ERR_NUMBER, name))"
  using assms
  by (auto simp: swmm_getNodeData_def swmm_addNodeInflow_def swmm_getNodeID_def inNode_def Let_def)

text \<open>
  Two nodes: index 1 is served, the indices 2 and -1 leave the array, and no call
  returns an error code.
\<close>

theorem node_index_unchecked_witness:
  "IsOpenFlag demo_nodes_sim \<and>
   swmm_getNodeData 2 demo_data demo_nodes_sim = Fault \<and>
   swmm_getNodeData (- 1) demo_data demo_nodes_sim = Fault \<and>
   swmm_addNodeInflow 2 (1/2) demo_nodes_sim = Fault \<and>
   swmm_addNodeInflow (- 1) (1/2) demo_nodes_sim = Fault \<and>
   swmm_getNodeData 1 demo_data demo_nodes_sim \<noteq> Fault \<and>
   swmm_getNodeID 1024 2 ''x'' demo_nodes_sim = Done (ERR_NUMBER, ''x'')"
proof -
  have o: "IsOpenFlag demo_nodes_sim"
    by (simp add: demo_nodes_sim_def demo_sim_def)
  have n: "length (Node (glob demo_nodes_sim)) = 2" "Nobjects (glob demo_nodes_sim) NODE = 2"
    by (simp_all add: demo_nodes_sim_def demo_sim_def demo_globals_def)
  from node_index_unchecked [OF o, of 2 demo_data "1/2" 1024 "''x''"]
    node_index_unchecked [OF o, of "- 1" demo_data "1/2" 1024 "''x''"]
    node_index_unchecked [OF o, of 1 demo_data "1/2" 1024 "''x''"]
  show ?thesis using o unfolding n by simp
qed

section \<open>The catch-up of the runoff clock\<close>

text \<open>
  C3: take an \<^verbatim>\<open>execRouting\<close> with runoff active and a positive candidate step that
  returns. There is exactly one number \<open>n\<close> such that \<^verbatim>\<open>runoff_execute\<close> was called \<open>n\<close>
  times in a row, each time with the runoff clock still below \<^verbatim>\<open>nextRoutingTime\<close> and
  with no error code left by the calls before the last, and then one of two things
  happened. Either the last call left an error code: then \<^verbatim>\<open>execRouting\<close> returned the
  state as that call left it, the calls it made after the step query being these \<open>n\<close>
  and nothing else, so routing did not run. Or no call left an error code and the
  runoff clock is at or beyond \<^verbatim>\<open>nextRoutingTime\<close>: then the routing statement ran on
  that state (and, the routing module not writing the runoff clock, the clock is
  still at or beyond \<^verbatim>\<open>nextRoutingTime\<close> when \<^verbatim>\<open>execRouting\<close> returns). And
  \<^verbatim>\<open>execRouting\<close> does return when every error-free \<^verbatim>\<open>runoff_execute\<close> advances the
  runoff clock by at least a fixed positive amount.
\<close>

theorem runoff_catch_up:
  assumes "DoRunoff s" and "0 < fst (candidateStep C (countStep s))"
  shows "(\<forall>s'. execRouting C e s = Some s' \<longrightarrow>
            (\<exists>!n. (\<forall>k<n. NewRunoffTime (glob ((invoke C runoff_execute ^^ k) (atRunoff C s)))
                          < nextRoutingTime_at C s) \<and>
                 (\<forall>k. 0 < k \<and> k < n \<longrightarrow>
                    ErrorCode (glob ((invoke C runoff_execute ^^ k) (atRunoff C s))) = ERR_NONE) \<and>
                 ((0 < n \<and>
                   ErrorCode (glob ((invoke C runoff_execute ^^ n) (atRunoff C s))) \<noteq> ERR_NONE \<and>
                   s' = (invoke C runoff_execute ^^ n) (atRunoff C s) \<and>
                   calls s' = calls (atRunoff C s) @ replicate n runoff_execute) \<or>
                  ((0 < n \<longrightarrow>
                    ErrorCode (glob ((invoke C runoff_execute ^^ n) (atRunoff C s))) = ERR_NONE) \<and>
                   nextRoutingTime_at C s
                     \<le> NewRunoffTime (glob ((invoke C runoff_execute ^^ n) (atRunoff C s))) \<and>
                   s' = route C (routingStep_at C s) (nextRoutingTime_at C s)
                          ((invoke C runoff_execute ^^ n) (atRunoff C s)) \<and>
                   (\<not> DoRouting s \<or> routing_frame C \<longrightarrow>
                      nextRoutingTime_at C s \<le> NewRunoffTime (glob s')))))) \<and>
         ((\<exists>d>0. \<forall>g. ErrorCode (extern C runoff_execute g) = ERR_NONE \<longrightarrow>
                   NewRunoffTime g + d \<le> NewRunoffTime (extern C runoff_execute g)) \<longrightarrow>
            (\<exists>s'. execRouting C e s = Some s'))"
proof (intro conjI allI impI)
  fix s'
  assume ex: "execRouting C e s = Some s'"
  let ?S = "\<lambda>k. (invoke C runoff_execute ^^ k) (atRunoff C s)"
  let ?nxt = "nextRoutingTime_at C s"
  let ?P = "\<lambda>n. (\<forall>k<n. NewRunoffTime (glob (?S k)) < ?nxt) \<and>
                 (\<forall>k. 0 < k \<and> k < n \<longrightarrow> ErrorCode (glob (?S k)) = ERR_NONE) \<and>
                 ((0 < n \<and> ErrorCode (glob (?S n)) \<noteq> ERR_NONE \<and> s' = ?S n \<and>
                   calls s' = calls (atRunoff C s) @ replicate n runoff_execute) \<or>
                  ((0 < n \<longrightarrow> ErrorCode (glob (?S n)) = ERR_NONE) \<and>
                   ?nxt \<le> NewRunoffTime (glob (?S n)) \<and>
                   s' = route C (routingStep_at C s) ?nxt (?S n) \<and>
                   (\<not> DoRouting s \<or> routing_frame C \<longrightarrow> ?nxt \<le> NewRunoffTime (glob s'))))"
  from ex assms obtain r where
    r: "runoff_loop C ?nxt (atRunoff C s) = Some r"
    and s': "s' = (case r of Returned s2 \<Rightarrow> s2
                   | Continue s2 \<Rightarrow> route C (routingStep_at C s) ?nxt s2)"
    by (auto simp: execRouting_valid split: option.splits outcome.splits)
  from runoff_loop_result [OF r] obtain n where
    n: "final r = ?S n"
      "\<forall>k<n. NewRunoffTime (glob (?S k)) < ?nxt"
      "\<forall>k. 0 < k \<and> k < n \<longrightarrow> ErrorCode (glob (?S k)) = ERR_NONE"
      "case r of Continue s2 \<Rightarrow> ?nxt \<le> NewRunoffTime (glob s2) \<and>
                    (0 < n \<longrightarrow> ErrorCode (glob s2) = ERR_NONE)
               | Returned s2 \<Rightarrow> 0 < n \<and> ErrorCode (glob s2) \<noteq> ERR_NONE"
    by blast
  have exists: "?P n"
  proof (cases r)
    case (Returned s2)
    with n s' show ?thesis by auto
  next
    case (Continue s2)
    have "NewRunoffTime (glob (route C (routingStep_at C s) ?nxt s2))
            = NewRunoffTime (glob s2)"
      if "\<not> DoRouting s \<or> routing_frame C"
      using that n(1) Continue by (intro route_keeps_runoff_clock) simp
    with Continue n s' show ?thesis by auto
  qed
  have less: False if "?P a" "?P b" "a < b" for a b
  proof -
    from that(2,3) have below: "NewRunoffTime (glob (?S a)) < ?nxt"
      and clean: "0 < a \<longrightarrow> ErrorCode (glob (?S a)) = ERR_NONE"
      by blast+
    from that(1) have "(0 < a \<and> ErrorCode (glob (?S a)) \<noteq> ERR_NONE) \<or>
        ?nxt \<le> NewRunoffTime (glob (?S a))"
      by blast
    with below clean show False by auto
  qed
  have unique: "m = n" if "?P m" for m
  proof (rule ccontr)
    assume "m \<noteq> n"
    then consider "m < n" | "n < m" by linarith
    then show False
    proof cases
      case 1
      from less [OF that exists 1] show False .
    next
      case 2
      from less [OF exists that 2] show False .
    qed
  qed
  show "\<exists>!n. ?P n"
    by (rule ex1I [of _ n]) (fact exists, erule unique)
next
  assume "\<exists>d>0. \<forall>g. ErrorCode (extern C runoff_execute g) = ERR_NONE \<longrightarrow>
                   NewRunoffTime g + d \<le> NewRunoffTime (extern C runoff_execute g)"
  then obtain d where "0 < d"
    and "\<And>g. ErrorCode (extern C runoff_execute g) = ERR_NONE \<Longrightarrow>
               NewRunoffTime g + d \<le> NewRunoffTime (extern C runoff_execute g)"
    by blast
  from runoff_loop_terminates [OF this]
  obtain r where "runoff_loop C (nextRoutingTime_at C s) (atRunoff C s) = Some r" by blast
  then show "\<exists>s'. execRouting C e s = Some s'"
    using assms by (cases r) (simp_all add: execRouting_valid)
qed

lemma demo_runoff_no_error:
  "ErrorCode (glob ((invoke demo runoff_execute ^^ n) (atRunoff demo demo_sim))) = ERR_NONE"
proof (induction n)
  case 0
  show ?case
    by (simp add: atRunoff_def candidateStep_def invoke_getRoutingStep_def countStep_def demo_defs)
next
  case (Suc n)
  then show ?case by (simp add: invoke_def demo_def demo_extern_def)
qed

text \<open>
  The first step of the sample run: one \<^verbatim>\<open>runoff_execute\<close> takes the runoff clock to
  300000, beyond the candidate instant 20000, no call leaves an error code, and the
  routing statement runs.
\<close>

theorem runoff_catch_up_witness:
  "DoRunoff demo_sim \<and> 0 < fst (candidateStep demo (countStep demo_sim)) \<and>
   execRouting demo 0 demo_sim =
     Some (demo_sim\<lparr>glob := demo_globals\<lparr>NewRunoffTime := 300000, NewRoutingTime := 20000,
                                           StepCount := 1\<rparr>,
                     calls := [routing_getRoutingStep 0 20, runoff_execute,
                               routing_execute 0 20]\<rparr>) \<and>
   nextRoutingTime_at demo demo_sim = 20000 \<and>
   nextRoutingTime_at demo demo_sim
     \<le> NewRunoffTime (glob (the (execRouting demo 0 demo_sim)))"
proof -
  let ?r = "demo_sim\<lparr>glob := demo_globals\<lparr>NewRunoffTime := 300000, NewRoutingTime := 20000,
                                           StepCount := 1\<rparr>,
                     calls := [routing_getRoutingStep 0 20, runoff_execute,
                               routing_execute 0 20]\<rparr>"
  have h1: "DoRunoff demo_sim" by (simp add: demo_sim_def)
  have h2: "0 < fst (candidateStep demo (countStep demo_sim))"
    by (simp add: candidateStep_def invoke_getRoutingStep_def demo_defs)
  have progress: "\<exists>d>0. \<forall>g. ErrorCode (extern demo runoff_execute g) = ERR_NONE \<longrightarrow>
            NewRunoffTime g + d \<le> NewRunoffTime (extern demo runoff_execute g)"
    by (intro exI [of _ 300000]) (simp add: demo_def demo_extern_def)
  note catch_up = runoff_catch_up [OF h1 h2, of 0]
  from catch_up progress obtain s' where ex: "execRouting demo 0 demo_sim = Some s'" by blast
  have val: "execRouting demo 0 demo_sim = Some ?r"
    by (simp add: execRouting_def candidateStep_def adjustStep_def route_def invoke_def
        invoke_getRoutingStep_def countStep_def demo_defs runoff_loop_unfold)
  have nxt: "nextRoutingTime_at demo demo_sim = 20000"
    by (simp add: nextRoutingTime_at_def atRunoff_def candidateStep_def adjustStep_def
        invoke_getRoutingStep_def countStep_def demo_defs)
  from catch_up ex obtain n where
    "(0 < n \<and>
      ErrorCode (glob ((invoke demo runoff_execute ^^ n) (atRunoff demo demo_sim))) \<noteq> ERR_NONE) \<or>
     (\<not> DoRouting demo_sim \<or> routing_frame demo \<longrightarrow>
        nextRoutingTime_at demo demo_sim \<le> NewRunoffTime (glob s'))"
    by blast
  with demo_runoff_no_error demo_frames(5)
  have "nextRoutingTime_at demo demo_sim \<le> NewRunoffTime (glob s')" by blast
  then have "nextRoutingTime_at demo demo_sim
     \<le> NewRunoffTime (glob (the (execRouting demo 0 demo_sim)))"
    unfolding ex by simp
  with h1 h2 val nxt show ?thesis by simp
qed

text \<open>
  With the failing runoff engine the first step of the sample run ends after the one
  runoff call, which has reached the candidate instant 20000 and left an error code:
  the routing engine is not called and the routing clock stays at 0.
\<close>

lemma runoff_error_aborts_sample:
  "execRouting failing 0 demo_sim =
     Some (demo_sim\<lparr>glob := demo_globals\<lparr>StepCount := 1, NewRunoffTime := 300000,
                                           ErrorCode := ERR_OTHER 1\<rparr>,
                     calls := [routing_getRoutingStep 0 20, runoff_execute]\<rparr>)"
  by (simp add: execRouting_def candidateStep_def adjustStep_def invoke_def
      invoke_getRoutingStep_def countStep_def failing_def demo_defs runoff_loop_unfold)

section \<open>A step without runoff\<close>

text \<open>
  C9, as the code has it: an \<^verbatim>\<open>execRouting\<close> with runoff inactive and a positive
  candidate step returns, and in it \<^verbatim>\<open>runoff_execute\<close> is not called and
  \<^verbatim>\<open>climate_setState\<close> is called exactly once, with \<^verbatim>\<open>getDateTime(NewRoutingTime)\<close>, the
  routing clock being the one before the routing statement advances it (the clock
  \<^verbatim>\<open>execRouting\<close> was called with, when the routing module's step query writes only
  to its own state). The climate and routing modules writing only what their
  interfaces name, \<open>NewRunoffTime\<close> is unchanged.
\<close>

theorem climate_once_without_runoff:
  assumes "\<not> DoRunoff s" and "0 < fst (candidateStep C (countStep s))"
  shows "\<exists>s'. execRouting C e s = Some s' \<and>
           filter runoff_or_climate (calls s')
             = filter runoff_or_climate (calls s)
               @ [climate_setState (getDateTime C (glob (atRunoff C s))
                                      (NewRoutingTime (glob (atRunoff C s))))] \<and>
           (\<not> DoRouting s \<or> getRoutingStep_frame C \<longrightarrow>
              getDateTime C (glob (atRunoff C s)) (NewRoutingTime (glob (atRunoff C s)))
                = getDateTime C (glob s) (NewRoutingTime (glob s))) \<and>
           ((\<not> DoRouting s \<or> getRoutingStep_frame C \<and> routing_frame C) \<and> climate_frame C \<longrightarrow>
              NewRunoffTime (glob s') = NewRunoffTime (glob s))"
proof -
  let ?d = "getDateTime C (glob (atRunoff C s)) (NewRoutingTime (glob (atRunoff C s)))"
  let ?s' = "route C (routingStep_at C s) (nextRoutingTime_at C s)
               (invoke C (climate_setState ?d) (atRunoff C s))"
  have ex: "execRouting C e s = Some ?s'"
    using assms by (simp add: execRouting_valid)
  have log: "filter runoff_or_climate (calls ?s')
             = filter runoff_or_climate (calls s) @ [climate_setState ?d]"
    by simp
  have date: "?d = getDateTime C (glob s) (NewRoutingTime (glob s))"
    if "\<not> DoRouting s \<or> getRoutingStep_frame C"
    using atRunoff_keeps [OF that] by (simp add: getDateTime_def)
  have clock: "NewRunoffTime (glob ?s') = NewRunoffTime (glob s)"
    if "(\<not> DoRouting s \<or> getRoutingStep_frame C \<and> routing_frame C) \<and> climate_frame C"
  proof (cases "DoRouting s")
    case False
    then show ?thesis
      using that atRunoff_keeps(2) [of s C] by (simp add: route_def climate_keeps)
  next
    case True
    with that have "getRoutingStep_frame C" "routing_frame C" "climate_frame C" by simp_all
    with True show ?thesis
      using atRunoff_keeps(2) [of s C] by (simp add: route_def climate_keeps routing_keeps)
  qed
  from ex log date clock show ?thesis by blast
qed

text \<open>
  The sample run without subcatchments, at its first step: the climate state is set
  once, for the date of the elapsed time 0, and the runoff clock stays at 0.
\<close>

theorem climate_once_without_runoff_witness:
  "\<not> DoRunoff (demo_sim\<lparr>DoRunoff := False\<rparr>) \<and>
   0 < fst (candidateStep demo (countStep (demo_sim\<lparr>DoRunoff := False\<rparr>))) \<and>
   filter runoff_or_climate (calls (the (execRouting demo 0 (demo_sim\<lparr>DoRunoff := False\<rparr>))))
     = [climate_setState (40000 + 1 / 86400000)] \<and>
   NewRunoffTime (glob (the (execRouting demo 0 (demo_sim\<lparr>DoRunoff := False\<rparr>)))) = 0"
proof -
  let ?s = "demo_sim\<lparr>DoRunoff := False\<rparr>"
  have h1: "\<not> DoRunoff ?s" by simp
  have h2: "0 < fst (candidateStep demo (countStep ?s))"
    by (simp add: candidateStep_def invoke_getRoutingStep_def demo_defs)
  have v: "calls ?s = []" "NewRunoffTime (glob ?s) = 0"
    "getDateTime demo (glob ?s) (NewRoutingTime (glob ?s)) = 40000 + 1 / 86400000"
    by (simp_all add: getDateTime_def demo_defs)
  from climate_once_without_runoff [OF h1 h2, of 0] demo_frames h1 h2 show ?thesis
    unfolding v by auto
qed

text \<open>
  The claim C9 as it is worded fails when the candidate step is not positive: with
  runoff inactive and the routing module answering 0, \<^verbatim>\<open>execRouting\<close> returns with
  \<open>ERR_TIMESTEP\<close> after the step query alone, and the climate state is not set.
\<close>

theorem climate_skipped_counterexample:
  "\<not> DoRunoff (demo_sim\<lparr>DoRunoff := False, glob := demo_globals\<lparr>RouteStep := 0\<rparr>\<rparr>) \<and>
   execRouting demo 0 (demo_sim\<lparr>DoRunoff := False, glob := demo_globals\<lparr>RouteStep := 0\<rparr>\<rparr>)
     = Some (demo_sim\<lparr>DoRunoff := False,
                       glob := demo_globals\<lparr>RouteStep := 0, StepCount := 1,
                                             ErrorCode := ERR_TIMESTEP\<rparr>,
                       calls := [routing_getRoutingStep 0 0]\<rparr>) \<and>
   filter runoff_or_climate [routing_getRoutingStep 0 0] = []"
  by (simp add: execRouting_def candidateStep_def invoke_getRoutingStep_def countStep_def demo_defs)

section \<open>The ways \<^verbatim>\<open>execRouting\<close> returns\<close>



section \<open>The reporting block\<close>










lemma c_int_wraps: "c_int (1000 * 3000000) = - 1294967296"
  by (simp add: c_int_def)

section \<open>The routing clock and the total duration\<close>















text \<open>
  Such a state is reached from the start of a run. The sample run without runoff and
  with a routing step of 3599.9995 seconds: its first step takes the clock from 0 to
  3599999.5, its second step, cut to the floor of one millisecond, to 3600000.5. Both
  steps return no error, and the second stores the elapsed time 0.
\<close>

lemma routing_overshoot_run:
  "NewRoutingTime (glob (demo_sim\<lparr>DoRunoff := False,
       glob := demo_globals\<lparr>RouteStep := 7199999 / 2000\<rparr>\<rparr>)) = 0 \<and>
   swmm_step demo 0 (demo_sim\<lparr>DoRunoff := False,
       glob := demo_globals\<lparr>RouteStep := 7199999 / 2000\<rparr>\<rparr>)
     = Some (ERR_NONE, 7199999 / 2 / MSECperDAY,
         demo_sim\<lparr>DoRunoff := False,
           glob := demo_globals\<lparr>RouteStep := 7199999 / 2000, NewRoutingTime := 7199999 / 2,
                     ReportTime := 1800000, StepCount := 1\<rparr>,
           calls := [routing_getRoutingStep 0 (7199999 / 2000),
                     climate_setState (getDateTime demo demo_globals 0),
                     routing_execute 0 (7199999 / 2000), output_saveResults 900000]\<rparr>) \<and>
   fst (the (run_steps demo (Suc (Suc 0)) 0 (demo_sim\<lparr>DoRunoff := False,
       glob := demo_globals\<lparr>RouteStep := 7199999 / 2000\<rparr>\<rparr>))) = 0 \<and>
   NewRoutingTime (glob (snd (the (run_steps demo (Suc (Suc 0)) 0 (demo_sim\<lparr>DoRunoff := False,
       glob := demo_globals\<lparr>RouteStep := 7199999 / 2000\<rparr>\<rparr>))))) = 7200001 / 2 \<and>
   TotalDuration (glob (snd (the (run_steps demo (Suc (Suc 0)) 0 (demo_sim\<lparr>DoRunoff := False,
       glob := demo_globals\<lparr>RouteStep := 7199999 / 2000\<rparr>\<rparr>))))) = 3600000 \<and>
   filter advances (calls (snd (the (run_steps demo (Suc (Suc 0)) 0 (demo_sim\<lparr>DoRunoff := False,
       glob := demo_globals\<lparr>RouteStep := 7199999 / 2000\<rparr>\<rparr>)))))
     = [climate_setState (getDateTime demo demo_globals 0),
        routing_execute 0 (7199999 / 2000),
        climate_setState (getDateTime demo demo_globals (7199999 / 2)),
        routing_execute 0 (1 / 1000)]"
  by (simp add: swmm_step_def execRouting_def candidateStep_def adjustStep_def route_def
      saveAtReportTime_def elapsedDays_def invoke_def invoke_getRoutingStep_def
      getDateTime_def MSECperDAY_def countStep_def c_int_def demo_defs)

end
